theory Spec2Isabelle
  imports Complex_Main "HOL-Library.Sublist" "HOL-Library.AList"
begin

section \<open>Conventions of the embedding\<close>

text \<open>
  The development embeds the event-driven trading pipeline of \<^verbatim>\<open>trading-system/\<close>:
  the domain model (\<^verbatim>\<open>domain/models.py\<close>), the Alpaca status normalisation
  (\<^verbatim>\<open>adapters/brokers/alpaca.py\<close>), the risk engine (\<^verbatim>\<open>engines/risk/engine.py\<close>),
  the execution engine (\<^verbatim>\<open>engines/execution/engine.py\<close>) and the moving-average
  crossover strategy (\<^verbatim>\<open>engines/strategy/ma_crossover.py\<close>).

  \<^item> Python \<^verbatim>\<open>int\<close> is \<open>int\<close>; \<^verbatim>\<open>float\<close> and \<^verbatim>\<open>Decimal\<close> are idealised as \<open>real\<close>
    (exact arithmetic on finite values: no rounding, no NaN, no infinities).
  \<^item> A naive \<^verbatim>\<open>datetime\<close> is an \<open>int\<close>, the number of microseconds since the epoch;
    a \<^verbatim>\<open>timedelta\<close> is an \<open>int\<close> number of microseconds.
  \<^item> An exception is a value \<open>Inl e\<close> of a sum type; \<open>str_of_error e\<close> is Python's \<^verbatim>\<open>str(e)\<close>.
  \<^item> Mutable objects are records that are passed in and returned updated.
  \<^item> Values the code draws from its environment (\<^verbatim>\<open>uuid.uuid4()\<close>, \<^verbatim>\<open>datetime.utcnow()\<close>,
    \<^verbatim>\<open>datetime.now()\<close>, the vendor SDK) are explicit arguments.
  \<^item> Strings are ASCII: symbols, rule names and vendor statuses are.
  \<^item> Calls to the logger do not change any state read by the code and are left out.
\<close>

section \<open>Errors\<close>

datatype py_error =
    ValueError string
  | ZeroDivisionError string
  | DecimalError string
  | BrokerError string
  | ConnectionError string
  | OrderError string
  | OtherError string

fun str_of_error :: "py_error \<Rightarrow> string" where
  "str_of_error (ValueError m) = m"
| "str_of_error (ZeroDivisionError m) = m"
| "str_of_error (DecimalError m) = m"
| "str_of_error (BrokerError m) = m"
| "str_of_error (ConnectionError m) = m"
| "str_of_error (OrderError m) = m"
| "str_of_error (OtherError m) = m"

section \<open>Domain model (domain/models.py)\<close>

datatype Side = BUY | SELL

datatype OrderType = MARKET | LIMIT | STOP | STOP_LIMIT

datatype SignalSource = STRATEGY | AI

datatype OrderStatus = PENDING | SUBMITTED | FILLED | PARTIALLY_FILLED | CANCELLED | REJECTED

datatype MarketEventType = TICK | BAR | VOLATILITY | OPTION_CHAIN

text \<open>\<^verbatim>\<open>Side.value\<close>: the string of the enum member.\<close>

fun side_value :: "Side \<Rightarrow> string" where
  "side_value BUY = ''buy''"
| "side_value SELL = ''sell''"

text \<open>
  The metadata dictionaries (\<^verbatim>\<open>Dict[str, Any]\<close>) hold values of several shapes; the
  ones the engines write are a rule outcome, a flag, a string and a number.
\<close>

datatype meta_value =
    RuleOutcome bool "string option"
  | MetaBool bool
  | MetaStr string
  | MetaNum real

type_synonym metadata = "(string \<times> meta_value) list"

record TradeSignal =
  signal_id :: string
  symbol :: string
  side :: Side
  qty :: int
  order_type :: OrderType
  confidence :: real
  source :: SignalSource
  created_at :: int
  strategy_name :: "string option"
  price :: "real option"
  stop_price :: "real option"
  signal_metadata :: metadata

text \<open>
  \<^verbatim>\<open>TradeSignal.__post_init__\<close> runs at every construction of the frozen dataclass:
  the constructor either raises \<^verbatim>\<open>ValueError\<close> or yields the signal.
\<close>

definition TradeSignal_post_init :: "TradeSignal \<Rightarrow> py_error + TradeSignal" where
  "TradeSignal_post_init s =
     (if \<not> (0 \<le> confidence s \<and> confidence s \<le> 1)
        then Inl (ValueError ''Confidence must be between 0.0 and 1.0'')
      else if qty s \<le> 0
        then Inl (ValueError ''Quantity must be positive'')
      else if price s \<noteq> None \<and> the (price s) \<le> 0
        then Inl (ValueError ''Price must be positive'')
      else Inr s)"

record PositionSnapshot =
  pos_symbol :: string
  pos_qty :: int
  avg_price :: real
  unrealized_pl :: real
  exposure_pct :: real
  pos_timestamp :: int

record AccountSnapshot =
  equity :: real
  buying_power :: real
  cash :: real
  day_trades_remaining :: int
  acct_timestamp :: int

record ApprovedTrade =
  approved_signal :: TradeSignal
  approved_at :: int
  approved_metadata :: metadata

record RejectedTrade =
  rejected_signal :: TradeSignal
  rejected_at :: int
  rejection_reason :: string
  rejected_metadata :: metadata

record OrderEvent =
  order_id :: string
  order_signal_id :: string
  status :: OrderStatus
  timestamp :: int
  broker_order_id :: "string option"
  filled_qty :: int
  filled_price :: "real option"
  order_rejection_reason :: "string option"

section \<open>Alpaca adapter: status normalisation (adapters/brokers/alpaca.py)\<close>

text \<open>\<^verbatim>\<open>str.lower()\<close> on the ASCII strings the vendor sends.\<close>

definition lower_char :: "char \<Rightarrow> char" where
  "lower_char c =
     (let n = (of_char c :: nat) in if 65 \<le> n \<and> n \<le> 90 then char_of (n + 32) else c)"

definition lower :: "string \<Rightarrow> string" where
  "lower s = map lower_char s"

text \<open>The dictionary literal of \<^verbatim>\<open>_convert_order_status\<close>, in the order it is written.\<close>

definition order_status_mapping :: "(string \<times> OrderStatus) list" where
  "order_status_mapping =
     [(''new'', SUBMITTED),
      (''partially_filled'', PARTIALLY_FILLED),
      (''filled'', FILLED),
      (''done_for_day'', CANCELLED),
      (''canceled'', CANCELLED),
      (''expired'', CANCELLED),
      (''replaced'', CANCELLED),
      (''pending_cancel'', PENDING),
      (''pending_replace'', PENDING),
      (''accepted'', SUBMITTED),
      (''pending_new'', PENDING),
      (''accepted_for_bidding'', SUBMITTED),
      (''stopped'', CANCELLED),
      (''rejected'', REJECTED),
      (''suspended'', CANCELLED),
      (''calculated'', SUBMITTED)]"

text \<open>\<^verbatim>\<open>mapping.get(alpaca_status.lower(), OrderStatus.PENDING)\<close>.\<close>

definition convert_order_status :: "string \<Rightarrow> OrderStatus" where
  "convert_order_status alpaca_status =
     (case map_of order_status_mapping (lower alpaca_status) of
        None \<Rightarrow> PENDING
      | Some st \<Rightarrow> st)"

text \<open>
  The order object of the vendor SDK, as far as \<^verbatim>\<open>get_order_status\<close> reads it. The
  quantity and the price are given as already parsed numbers; \<open>None\<close> is a missing
  (falsy) field.
\<close>

record AlpacaOrder =
  ao_id :: string
  ao_status :: string
  ao_filled_qty :: "int option"
  ao_filled_avg_price :: "real option"

text \<open>
  The adapter: the \<^verbatim>\<open>_connected\<close> flag and the REST client, of which only
  \<^verbatim>\<open>get_order\<close> is needed here (\<open>None\<close> is \<^verbatim>\<open>api_client = None\<close>).
\<close>

record AlpacaBrokerAdapter =
  connected_flag :: bool
  api_get_order :: "(string \<Rightarrow> py_error + AlpacaOrder) option"

definition is_connected :: "AlpacaBrokerAdapter \<Rightarrow> bool" where
  "is_connected a = (connected_flag a \<and> api_get_order a \<noteq> None)"

text \<open>
  \<^verbatim>\<open>get_order_status\<close>; \<open>uuid\<close> is the fresh \<^verbatim>\<open>uuid4\<close> and \<open>now\<close> the clock reading.
  A falsy quantity (missing or zero) gives 0 and a falsy price gives \<open>None\<close>.
\<close>

definition get_order_status ::
  "AlpacaBrokerAdapter \<Rightarrow> string \<Rightarrow> int \<Rightarrow> string \<Rightarrow> py_error + OrderEvent" where
  "get_order_status a uuid now oid =
     (if \<not> is_connected a then Inl (ConnectionError ''Not connected to Alpaca'')
      else case the (api_get_order a) oid of
        Inl e \<Rightarrow> Inl (OrderError (''Failed to get order status: '' @ str_of_error e))
      | Inr ord \<Rightarrow>
          Inr \<lparr> order_id = uuid,
                order_signal_id = '''',
                status = convert_order_status (ao_status ord),
                timestamp = now,
                broker_order_id = Some (ao_id ord),
                filled_qty = (case ao_filled_qty ord of None \<Rightarrow> 0 | Some q \<Rightarrow> q),
                filled_price =
                  (case ao_filled_avg_price ord of
                     None \<Rightarrow> None
                   | Some p \<Rightarrow> if p = 0 then None else Some p),
                order_rejection_reason = None \<rparr>)"

section \<open>Python helpers\<close>

text \<open>
  The slice \<^verbatim>\<open>xs[i:]\<close>: a negative \<open>i\<close> counts from the end and is clipped at the
  start of the list; \<^verbatim>\<open>xs[-0:]\<close> is \<^verbatim>\<open>xs[0:]\<close>, the whole list.
\<close>

definition py_slice_from :: "'a list \<Rightarrow> int \<Rightarrow> 'a list" where
  "py_slice_from xs i =
     (let n = int (length xs);
          start = (if i < 0 then max 0 (n + i) else min n i)
      in drop (nat start) xs)"

text \<open>\<^verbatim>\<open>str(n)\<close> for an integer, and an f-string field holding an optional string.\<close>

fun show_nat :: "nat \<Rightarrow> string" where
  "show_nat n =
     (if n < 10 then [char_of (48 + n)]
      else show_nat (n div 10) @ [char_of (48 + n mod 10)])"

definition show_int :: "int \<Rightarrow> string" where
  "show_int i = (if i < 0 then ''-'' @ show_nat (nat (- i)) else show_nat (nat i))"

fun str_of_reason :: "string option \<Rightarrow> string" where
  "str_of_reason None = ''None''"
| "str_of_reason (Some r) = r"

text \<open>
  The format specifications applied to floats in the messages (\<^verbatim>\<open>.1%\<close>, \<^verbatim>\<open>.2f\<close>,
  \<^verbatim>\<open>.0f\<close>) are parameters of the model: no result below depends on the digits they print.
\<close>

record formatter =
  fmt_pct1 :: "real \<Rightarrow> string"
  fmt_f2 :: "real \<Rightarrow> string"
  fmt_f0 :: "real \<Rightarrow> string"

text \<open>What \<^verbatim>\<open>MarketHoursRule\<close> reads from \<^verbatim>\<open>datetime.now()\<close>.\<close>

record local_time =
  weekday :: nat
  hour :: nat

section \<open>Risk engine (engines/risk/engine.py)\<close>

subsection \<open>Rules\<close>

text \<open>
  A rule is an object with a name and a \<^verbatim>\<open>validate\<close> method, which returns
  \<^verbatim>\<open>(is_valid, rejection_reason)\<close> or raises.
\<close>

record RiskRule =
  rule_name :: string
  validate ::
    "TradeSignal \<Rightarrow> AccountSnapshot \<Rightarrow> PositionSnapshot list \<Rightarrow> TradeSignal list \<Rightarrow>
     local_time \<Rightarrow> py_error + (bool \<times> string option)"

text \<open>
  \<^verbatim>\<open>MaxPositionSizeRule\<close>: the division is a \<^verbatim>\<open>Decimal\<close> division, which raises on a
  zero equity.
\<close>

definition MaxPositionSizeRule_validate ::
  "formatter \<Rightarrow> real \<Rightarrow> TradeSignal \<Rightarrow> AccountSnapshot \<Rightarrow> PositionSnapshot list \<Rightarrow>
   TradeSignal list \<Rightarrow> local_time \<Rightarrow> py_error + (bool \<times> string option)" where
  "MaxPositionSizeRule_validate fmt max_position_pct signal account positions recent lt =
     (let estimated_price = (100 :: real);
          position_value = real_of_int (qty signal) * estimated_price
      in if equity account = 0 then
           Inl (DecimalError
                  (if position_value = 0 then ''[<class 'decimal.DivisionUndefined'>]''
                   else ''[<class 'decimal.DivisionByZero'>]''))
         else
           let position_pct = position_value / equity account
           in if position_pct > max_position_pct then
                Inr (False,
                     Some (''Position size '' @ fmt_pct1 fmt position_pct @
                           '' exceeds maximum '' @ fmt_pct1 fmt max_position_pct @
                           '' of account equity''))
              else Inr (True, None))"

definition MaxPositionSizeRule :: "formatter \<Rightarrow> real \<Rightarrow> RiskRule" where
  "MaxPositionSizeRule fmt max_position_pct =
     \<lparr> rule_name = ''max_position_size'',
       validate = MaxPositionSizeRule_validate fmt max_position_pct \<rparr>"

definition MaxPositionsPerSymbolRule_validate ::
  "int \<Rightarrow> TradeSignal \<Rightarrow> AccountSnapshot \<Rightarrow> PositionSnapshot list \<Rightarrow>
   TradeSignal list \<Rightarrow> local_time \<Rightarrow> py_error + (bool \<times> string option)" where
  "MaxPositionsPerSymbolRule_validate max_positions signal account positions recent lt =
     (let symbol_positions =
            filter (\<lambda>p. pos_symbol p = symbol signal \<and> pos_qty p \<noteq> 0) positions
      in if int (length symbol_positions) \<ge> max_positions then
           Inr (False,
                Some (''Symbol '' @ symbol signal @ '' already has '' @
                      show_int (int (length symbol_positions)) @
                      '' positions (max: '' @ show_int max_positions @ '')''))
         else Inr (True, None))"

definition MaxPositionsPerSymbolRule :: "int \<Rightarrow> RiskRule" where
  "MaxPositionsPerSymbolRule max_positions =
     \<lparr> rule_name = ''max_positions_per_symbol'',
       validate = MaxPositionsPerSymbolRule_validate max_positions \<rparr>"

definition MinConfidenceRule_validate ::
  "formatter \<Rightarrow> real \<Rightarrow> TradeSignal \<Rightarrow> AccountSnapshot \<Rightarrow> PositionSnapshot list \<Rightarrow>
   TradeSignal list \<Rightarrow> local_time \<Rightarrow> py_error + (bool \<times> string option)" where
  "MinConfidenceRule_validate fmt min_conf signal account positions recent lt =
     (if confidence signal < min_conf then
        Inr (False,
             Some (''Signal confidence '' @ fmt_f2 fmt (confidence signal) @
                   '' below minimum '' @ fmt_f2 fmt min_conf))
      else Inr (True, None))"

definition MinConfidenceRule :: "formatter \<Rightarrow> real \<Rightarrow> RiskRule" where
  "MinConfidenceRule fmt min_conf =
     \<lparr> rule_name = ''min_confidence'',
       validate = MinConfidenceRule_validate fmt min_conf \<rparr>"

text \<open>
  The loop of \<^verbatim>\<open>DuplicateSignalRule.validate\<close> over the recent signals: it returns at
  the first signal with the same symbol and side created after the cutoff.
\<close>

fun duplicate_in :: "TradeSignal \<Rightarrow> int \<Rightarrow> TradeSignal list \<Rightarrow> bool" where
  "duplicate_in signal cutoff_time [] = False"
| "duplicate_in signal cutoff_time (recent_signal # rest) =
     (if symbol recent_signal = symbol signal \<and>
         side recent_signal = side signal \<and>
         created_at recent_signal > cutoff_time
      then True
      else duplicate_in signal cutoff_time rest)"

definition DuplicateSignalRule_validate ::
  "formatter \<Rightarrow> int \<Rightarrow> TradeSignal \<Rightarrow> AccountSnapshot \<Rightarrow> PositionSnapshot list \<Rightarrow>
   TradeSignal list \<Rightarrow> local_time \<Rightarrow> py_error + (bool \<times> string option)" where
  "DuplicateSignalRule_validate fmt time_window_minutes signal account positions recent lt =
     (let time_window = time_window_minutes * 60000000;
          cutoff_time = created_at signal - time_window
      in if duplicate_in signal cutoff_time recent then
           Inr (False,
                Some (''Duplicate signal for '' @ symbol signal @ '' '' @
                      side_value (side signal) @ '' within '' @
                      fmt_f0 fmt (real_of_int time_window / 1000000 / 60) @ '' minutes''))
         else Inr (True, None))"

definition DuplicateSignalRule :: "formatter \<Rightarrow> int \<Rightarrow> RiskRule" where
  "DuplicateSignalRule fmt time_window_minutes =
     \<lparr> rule_name = ''duplicate_signal'',
       validate = DuplicateSignalRule_validate fmt time_window_minutes \<rparr>"

definition MarketHoursRule_validate ::
  "TradeSignal \<Rightarrow> AccountSnapshot \<Rightarrow> PositionSnapshot list \<Rightarrow>
   TradeSignal list \<Rightarrow> local_time \<Rightarrow> py_error + (bool \<times> string option)" where
  "MarketHoursRule_validate signal account positions recent current_time =
     (let is_weekend = (weekday current_time \<ge> 5)
      in if is_weekend then Inr (False, Some ''Market is closed (weekend)'')
         else if hour current_time < 9 \<or> hour current_time \<ge> 16 then
           Inr (False, Some ''Market is closed (outside trading hours)'')
         else Inr (True, None))"

definition MarketHoursRule :: RiskRule where
  "MarketHoursRule =
     \<lparr> rule_name = ''market_hours'', validate = MarketHoursRule_validate \<rparr>"

subsection \<open>The engine\<close>

datatype EventType =
    SIGNAL_GENERATED | SIGNAL_APPROVED | SIGNAL_REJECTED
  | ORDER_SUBMITTED | ORDER_FILLED | ORDER_REJECTED

datatype event_payload =
    ApprovedPayload ApprovedTrade
  | RejectedPayload RejectedTrade

text \<open>
  A domain event (\<^verbatim>\<open>domain/simple_events.py\<close>): its type and the trade stored in its
  metadata. The fresh event id and the event's own timestamp are not modelled.
\<close>

record DomainEvent =
  event_type :: EventType
  event_payload :: event_payload

definition create_signal_approved_event :: "ApprovedTrade \<Rightarrow> DomainEvent" where
  "create_signal_approved_event approved_trade =
     \<lparr> event_type = SIGNAL_APPROVED, event_payload = ApprovedPayload approved_trade \<rparr>"

definition create_signal_rejected_event :: "RejectedTrade \<Rightarrow> DomainEvent" where
  "create_signal_rejected_event rejected_trade =
     \<lparr> event_type = SIGNAL_REJECTED, event_payload = RejectedPayload rejected_trade \<rparr>"

record RiskEngine =
  rules :: "RiskRule list"
  is_active :: bool
  recent_signals :: "TradeSignal list"
  max_recent_signals :: int

definition add_rule :: "RiskEngine \<Rightarrow> RiskRule \<Rightarrow> RiskEngine" where
  "add_rule e rule = e\<lparr>rules := rules e @ [rule]\<rparr>"

definition remove_rule :: "RiskEngine \<Rightarrow> string \<Rightarrow> RiskEngine" where
  "remove_rule e name = e\<lparr>rules := filter (\<lambda>rule. rule_name rule \<noteq> name) (rules e)\<rparr>"

definition setup_default_rules :: "formatter \<Rightarrow> RiskEngine \<Rightarrow> RiskEngine" where
  "setup_default_rules fmt e =
     add_rule
       (add_rule
          (add_rule
             (add_rule
                (add_rule e (MaxPositionSizeRule fmt (5 / 100)))
                (MaxPositionsPerSymbolRule 2))
             (MinConfidenceRule fmt (6 / 10)))
          (DuplicateSignalRule fmt 1))
       MarketHoursRule"

definition RiskEngine_init :: "formatter \<Rightarrow> RiskEngine" where
  "RiskEngine_init fmt =
     setup_default_rules fmt
       \<lparr> rules = [], is_active = True, recent_signals = [], max_recent_signals = 1000 \<rparr>"

definition activate :: "RiskEngine \<Rightarrow> RiskEngine" where
  "activate e = e\<lparr>is_active := True\<rparr>"

definition deactivate :: "RiskEngine \<Rightarrow> RiskEngine" where
  "deactivate e = e\<lparr>is_active := False\<rparr>"

text \<open>
  \<^verbatim>\<open>_add_recent_signal\<close>. The slice bound \<^verbatim>\<open>-self.max_recent_signals//2\<close> is the floor
  division of the negated capacity.
\<close>

definition add_recent_signal :: "RiskEngine \<Rightarrow> TradeSignal \<Rightarrow> RiskEngine" where
  "add_recent_signal e signal =
     (let appended = recent_signals e @ [signal]
      in if int (length appended) > max_recent_signals e then
           e\<lparr>recent_signals := py_slice_from appended ((- max_recent_signals e) div 2)\<rparr>
         else e\<lparr>recent_signals := appended\<rparr>)"

text \<open>
  The loop over the rules either runs to its end, with the metadata collected, or
  returns from \<^verbatim>\<open>validate_signal\<close> with a rejection and the events published on the
  way. The second component lists, in order, the rules whose \<^verbatim>\<open>validate\<close> was called.
\<close>

datatype loop_exit =
    Finished metadata
  | Returned RejectedTrade "DomainEvent list"

fun run_rules ::
  "RiskRule list \<Rightarrow> TradeSignal \<Rightarrow> AccountSnapshot \<Rightarrow> PositionSnapshot list \<Rightarrow>
   TradeSignal list \<Rightarrow> local_time \<Rightarrow> int \<Rightarrow> metadata \<Rightarrow> loop_exit \<times> string list" where
  "run_rules [] signal account positions recent lt now risk_metadata =
     (Finished risk_metadata, [])"
| "run_rules (rule # rest) signal account positions recent lt now risk_metadata =
     (case validate rule signal account positions recent lt of
        Inl e \<Rightarrow>
          (Returned
             \<lparr> rejected_signal = signal,
               rejected_at = now,
               rejection_reason = ''Risk validation error: '' @ str_of_error e,
               rejected_metadata = [(''error'', MetaStr (str_of_error e))] \<rparr>
             [],
           [rule_name rule])
      | Inr (is_valid, reason) \<Rightarrow>
          (let risk_metadata' =
                 AList.update (''rule_'' @ rule_name rule) (RuleOutcome is_valid reason)
                   risk_metadata
           in if \<not> is_valid then
                (let rejected_trade =
                       \<lparr> rejected_signal = signal,
                         rejected_at = now,
                         rejection_reason = rule_name rule @ '': '' @ str_of_reason reason,
                         rejected_metadata = risk_metadata' \<rparr>
                 in (Returned rejected_trade [create_signal_rejected_event rejected_trade],
                     [rule_name rule]))
              else
                (case run_rules rest signal account positions recent lt now risk_metadata' of
                   (ex, evaluated) \<Rightarrow> (ex, rule_name rule # evaluated))))"

datatype validation_outcome =
    Approved ApprovedTrade
  | Rejected RejectedTrade

text \<open>
  The result of one call of \<^verbatim>\<open>validate_signal\<close>: the engine afterwards, the returned
  trade, the events handed to the publisher, and the rules evaluated.
\<close>

record validation =
  engine_after :: RiskEngine
  outcome :: validation_outcome
  published :: "DomainEvent list"
  rules_evaluated :: "string list"

definition validate_signal ::
  "RiskEngine \<Rightarrow> local_time \<Rightarrow> int \<Rightarrow> TradeSignal \<Rightarrow> AccountSnapshot \<Rightarrow>
   PositionSnapshot list \<Rightarrow> validation" where
  "validate_signal e lt now signal account positions =
     (if \<not> is_active e then
        \<lparr> engine_after = e,
          outcome = Rejected
            \<lparr> rejected_signal = signal,
              rejected_at = now,
              rejection_reason = ''Risk engine is disabled'',
              rejected_metadata = [(''engine_disabled'', MetaBool True)] \<rparr>,
          published = [],
          rules_evaluated = [] \<rparr>
      else
        case run_rules (rules e) signal account positions (recent_signals e) lt now [] of
          (Returned rejected_trade events, evaluated) \<Rightarrow>
            \<lparr> engine_after = e,
              outcome = Rejected rejected_trade,
              published = events,
              rules_evaluated = evaluated \<rparr>
        | (Finished risk_metadata, evaluated) \<Rightarrow>
            (let approved_trade =
                   \<lparr> approved_signal = signal,
                     approved_at = now,
                     approved_metadata = risk_metadata \<rparr>
             in \<lparr> engine_after = add_recent_signal e signal,
                  outcome = Approved approved_trade,
                  published = [create_signal_approved_event approved_trade],
                  rules_evaluated = evaluated \<rparr>))"

text \<open>One argument tuple per call, for a sequence of calls on the same engine.\<close>

record validate_call =
  call_time :: local_time
  call_now :: int
  call_signal :: TradeSignal
  call_account :: AccountSnapshot
  call_positions :: "PositionSnapshot list"

fun validate_signals :: "RiskEngine \<Rightarrow> validate_call list \<Rightarrow> RiskEngine" where
  "validate_signals e [] = e"
| "validate_signals e (c # cs) =
     validate_signals
       (engine_after
          (validate_signal e (call_time c) (call_now c) (call_signal c) (call_account c)
             (call_positions c)))
       cs"

section \<open>Execution engine (engines/execution/engine.py)\<close>

datatype ExecutionStatus = IDLE | PROCESSING | ERROR

text \<open>The dictionary stored per active order by \<^verbatim>\<open>_track_order\<close>.\<close>

record order_info =
  info_broker_order_id :: "string option"
  info_signal_id :: string
  info_symbol :: string
  info_side :: Side
  info_qty :: int
  submitted_at :: int
  info_approved_trade :: ApprovedTrade

record execution_stats =
  orders_submitted :: int
  orders_filled :: int
  orders_rejected :: int
  orders_cancelled :: int
  total_execution_time :: real

record ExecutionEngine =
  exec_status :: ExecutionStatus
  active_orders :: "string \<rightharpoonup> order_info"
  order_history :: "string \<rightharpoonup> OrderEvent"
  stats :: execution_stats

definition ExecutionEngine_init :: ExecutionEngine where
  "ExecutionEngine_init =
     \<lparr> exec_status = IDLE,
       active_orders = Map.empty,
       order_history = Map.empty,
       stats = \<lparr> orders_submitted = 0, orders_filled = 0, orders_rejected = 0,
                 orders_cancelled = 0, total_execution_time = 0 \<rparr> \<rparr>"

definition track_order :: "ExecutionEngine \<Rightarrow> OrderEvent \<Rightarrow> ApprovedTrade \<Rightarrow> ExecutionEngine" where
  "track_order e order_event approved_trade =
     e\<lparr>active_orders := (active_orders e)(order_id order_event \<mapsto>
          \<lparr> info_broker_order_id = broker_order_id order_event,
            info_signal_id = signal_id (approved_signal approved_trade),
            info_symbol = symbol (approved_signal approved_trade),
            info_side = side (approved_signal approved_trade),
            info_qty = qty (approved_signal approved_trade),
            submitted_at = timestamp order_event,
            info_approved_trade = approved_trade \<rparr>)\<rparr>"

text \<open>
  \<^verbatim>\<open>execute_approved_trade\<close>. The broker's \<^verbatim>\<open>place_order\<close> is a function that returns
  an order event or raises; \<open>start_time\<close> and \<open>end_time\<close> are the clock readings before
  and after the broker call, and \<open>end_time\<close> also stamps the event built in the
  exception handler. The second component lists the orders for which a monitor task is
  created. In the handler the event \<open>error_order\<close> is built and, as in the source,
  not used afterwards. The \<^verbatim>\<open>finally\<close> clause sets the status on both paths.
\<close>

definition execute_approved_trade ::
  "ExecutionEngine \<Rightarrow> (TradeSignal \<Rightarrow> py_error + OrderEvent) \<Rightarrow> int \<Rightarrow> int \<Rightarrow>
   ApprovedTrade \<Rightarrow> ExecutionEngine \<times> OrderEvent list" where
  "execute_approved_trade e place_order start_time end_time approved_trade =
     (if exec_status e \<noteq> IDLE then (e, [])
      else
        let e1 = e\<lparr>exec_status := PROCESSING\<rparr>;
            signal = approved_signal approved_trade
        in case place_order signal of
             Inr order_event \<Rightarrow>
               (let execution_time = real_of_int (end_time - start_time) / 1000000;
                    e2 = e1\<lparr>stats := (stats e1)\<lparr>total_execution_time :=
                              total_execution_time (stats e1) + execution_time\<rparr>\<rparr>
                in if status order_event = SUBMITTED then
                     (let e3 = track_order e2 order_event approved_trade;
                          e4 = e3\<lparr>stats := (stats e3)\<lparr>orders_submitted :=
                                    orders_submitted (stats e3) + 1\<rparr>\<rparr>;
                          e5 = e4\<lparr>order_history :=
                                    (order_history e4)(order_id order_event \<mapsto> order_event)\<rparr>
                      in (e5\<lparr>exec_status := IDLE\<rparr>, [order_event]))
                   else
                     (let e3 = e2\<lparr>stats := (stats e2)\<lparr>orders_rejected :=
                                    orders_rejected (stats e2) + 1\<rparr>\<rparr>;
                          e4 = e3\<lparr>order_history :=
                                    (order_history e3)(order_id order_event \<mapsto> order_event)\<rparr>
                      in (e4\<lparr>exec_status := IDLE\<rparr>, [])))
           | Inl ex \<Rightarrow>
               (let e2 = e1\<lparr>stats := (stats e1)\<lparr>orders_rejected :=
                              orders_rejected (stats e1) + 1\<rparr>\<rparr>;
                    error_order =
                      \<lparr> order_id = ''error_'' @ signal_id signal,
                        order_signal_id = signal_id signal,
                        status = REJECTED,
                        timestamp = end_time,
                        broker_order_id = None,
                        filled_qty = 0,
                        filled_price = None,
                        order_rejection_reason =
                          Some (''Execution error: '' @ str_of_error ex) \<rparr>
                in (e2\<lparr>exec_status := IDLE\<rparr>, [])))"

section \<open>Moving-average crossover strategy (engines/strategy/ma_crossover.py)\<close>

record MarketEvent =
  market_event_type :: MarketEventType
  market_symbol :: string
  market_timestamp :: int
  payload :: "string \<rightharpoonup> real"

text \<open>One entry of a price history: the dictionary with keys \<^verbatim>\<open>price\<close> and \<^verbatim>\<open>timestamp\<close>.\<close>

record price_data =
  entry_price :: real
  entry_timestamp :: int

record MovingAverageCrossoverStrategy =
  strategy_label :: string
  symbols :: "string set"
  strategy_is_active :: bool
  short_period :: int
  long_period :: int
  min_confidence :: real
  price_history :: "string \<rightharpoonup> price_data list"
  last_signal_time :: "string \<rightharpoonup> int"

definition MovingAverageCrossoverStrategy_init ::
  "string list \<Rightarrow> int \<Rightarrow> int \<Rightarrow> real \<Rightarrow> MovingAverageCrossoverStrategy" where
  "MovingAverageCrossoverStrategy_init syms short long min_conf =
     \<lparr> strategy_label = ''MA_Crossover'',
       symbols = set syms,
       strategy_is_active = True,
       short_period = short,
       long_period = long,
       min_confidence = min_conf,
       price_history = Map.empty,
       last_signal_time = Map.empty \<rparr>"

definition is_symbol_relevant :: "MovingAverageCrossoverStrategy \<Rightarrow> string \<Rightarrow> bool" where
  "is_symbol_relevant st symb = (symb \<in> symbols st)"

definition extract_price :: "(string \<rightharpoonup> real) \<Rightarrow> real option" where
  "extract_price pl =
     (case find (\<lambda>field. pl field \<noteq> None) [''price'', ''close'', ''last'', ''mid''] of
        Some field \<Rightarrow> pl field
      | None \<Rightarrow>
          (if pl ''bid'' \<noteq> None \<and> pl ''ask'' \<noteq> None then
             (let bid = the (pl ''bid''); ask = the (pl ''ask'')
              in if bid > 0 \<and> ask > 0 then Some ((bid + ask) / 2) else None)
           else None))"

definition update_price_history ::
  "MovingAverageCrossoverStrategy \<Rightarrow> string \<Rightarrow> real \<Rightarrow> int \<Rightarrow> MovingAverageCrossoverStrategy" where
  "update_price_history st symb p ts =
     (let history = (case price_history st symb of None \<Rightarrow> [] | Some h \<Rightarrow> h);
          appended = history @ [\<lparr> entry_price = p, entry_timestamp = ts \<rparr>];
          max_history = long_period st + 10
      in if int (length appended) > max_history then
           st\<lparr>price_history := (price_history st)(symb \<mapsto> py_slice_from appended (- max_history))\<rparr>
         else st\<lparr>price_history := (price_history st)(symb \<mapsto> appended)\<rparr>)"

text \<open>
  Float division: a zero divisor raises. The message is the one Python gives for a
  float dividend.
\<close>

definition float_div :: "real \<Rightarrow> real \<Rightarrow> py_error + real" where
  "float_div a b =
     (if b = 0 then Inl (ZeroDivisionError ''float division by zero'') else Inr (a / b))"

text \<open>
  The two averages \<^verbatim>\<open>sum(prices[-short_period:]) / short_period\<close> and
  \<^verbatim>\<open>sum(prices[-long_period:]) / long_period\<close>, computed in this order.
\<close>

definition averages_of ::
  "MovingAverageCrossoverStrategy \<Rightarrow> real list \<Rightarrow> py_error + (real \<times> real) option" where
  "averages_of st prices =
     (case float_div (sum_list (py_slice_from prices (- short_period st)))
             (real_of_int (short_period st)) of
        Inl e \<Rightarrow> Inl e
      | Inr short_ma \<Rightarrow>
          (case float_div (sum_list (py_slice_from prices (- long_period st)))
                  (real_of_int (long_period st)) of
             Inl e \<Rightarrow> Inl e
           | Inr long_ma \<Rightarrow> Inr (Some (short_ma, long_ma))))"

definition calculate_moving_averages ::
  "MovingAverageCrossoverStrategy \<Rightarrow> string \<Rightarrow> py_error + (real \<times> real) option" where
  "calculate_moving_averages st symb =
     (case price_history st symb of
        None \<Rightarrow> Inr None
      | Some h \<Rightarrow>
          (let prices = map entry_price h
           in if int (length prices) < long_period st then Inr None
              else averages_of st prices))"

definition get_previous_moving_averages ::
  "MovingAverageCrossoverStrategy \<Rightarrow> string \<Rightarrow> py_error + (real \<times> real) option" where
  "get_previous_moving_averages st symb =
     (case price_history st symb of
        None \<Rightarrow> Inr None
      | Some h \<Rightarrow>
          (let prices = map entry_price h
           in if int (length prices) < long_period st + 1 then Inr None
              else
                let prev_prices = butlast prices
                in if int (length prev_prices) < long_period st then Inr None
                   else averages_of st prev_prices))"

text \<open>
  \<^verbatim>\<open>_calculate_signal_confidence\<close>. The first division, by \<open>long_ma\<close>, raises when
  \<open>long_ma\<close> is zero; any crossover type other than \<^verbatim>\<open>"bullish"\<close> takes the bearish branch.
\<close>

definition calculate_signal_confidence ::
  "real \<Rightarrow> real \<Rightarrow> real \<Rightarrow> string \<Rightarrow> py_error + real" where
  "calculate_signal_confidence p short_ma long_ma crossover_type =
     (let base_confidence = (5 / 10 :: real)
      in case float_div \<bar>short_ma - long_ma\<bar> long_ma of
           Inl e \<Rightarrow> Inl e
         | Inr ma_gap \<Rightarrow>
             (let gap_factor = min (ma_gap * 10) (3 / 10);
                  price_factor =
                    (if crossover_type = ''bullish'' then
                       (if p > long_ma then min ((p - long_ma) / long_ma * 5) (2 / 10) else 0)
                     else
                       (if p < long_ma then min ((long_ma - p) / long_ma * 5) (2 / 10) else 0));
                  conf = base_confidence + gap_factor + price_factor
              in Inr (min conf 1)))"

text \<open>\<^verbatim>\<open>int(x)\<close> on a float truncates towards zero.\<close>

definition py_int :: "real \<Rightarrow> int" where
  "py_int x = (if x \<ge> 0 then \<lfloor>x\<rfloor> else \<lceil>x\<rceil>)"

definition calculate_position_size :: "real \<Rightarrow> int" where
  "calculate_position_size conf =
     (let base_size = (100 :: real);
          size_multiplier = 5 / 10 + conf * (5 / 10)
      in max 1 (py_int (base_size * size_multiplier)))"

definition upper_char :: "char \<Rightarrow> char" where
  "upper_char c =
     (let n = (of_char c :: nat) in if 97 \<le> n \<and> n \<le> 122 then char_of (n - 32) else c)"

definition upper :: "string \<Rightarrow> string" where
  "upper s = map upper_char s"

text \<open>
  \<^verbatim>\<open>create_trade_signal\<close> (domain/models.py), as the strategy calls it: a market order
  without prices. The constructor validates the signal.
\<close>

definition create_trade_signal ::
  "string \<Rightarrow> int \<Rightarrow> string \<Rightarrow> Side \<Rightarrow> int \<Rightarrow> SignalSource \<Rightarrow> real \<Rightarrow> string option \<Rightarrow>
   OrderType \<Rightarrow> metadata \<Rightarrow> py_error + TradeSignal" where
  "create_trade_signal uuid now symb sd quantity src conf strat ot md =
     TradeSignal_post_init
       \<lparr> signal_id = uuid,
         symbol = upper symb,
         side = sd,
         qty = quantity,
         order_type = ot,
         confidence = conf,
         source = src,
         created_at = now,
         strategy_name = strat,
         price = None,
         stop_price = None,
         signal_metadata = md \<rparr>"

text \<open>
  One branch of \<^verbatim>\<open>_detect_crossover\<close>: the confidence, the threshold, the signal, and
  the update of \<^verbatim>\<open>last_signal_time\<close> when a signal was built.
\<close>

definition crossover_signal ::
  "MovingAverageCrossoverStrategy \<Rightarrow> string \<Rightarrow> int \<Rightarrow> string \<Rightarrow> real \<Rightarrow> real \<Rightarrow> real \<Rightarrow>
   int \<Rightarrow> Side \<Rightarrow> string \<Rightarrow>
   MovingAverageCrossoverStrategy \<times> (py_error + TradeSignal option)" where
  "crossover_signal st uuid now symb p short_ma long_ma ts sd crossover_type =
     (case calculate_signal_confidence p short_ma long_ma crossover_type of
        Inl e \<Rightarrow> (st, Inl e)
      | Inr conf \<Rightarrow>
          (if conf \<ge> min_confidence st then
             (case create_trade_signal uuid now symb sd (calculate_position_size conf)
                     STRATEGY conf (Some (strategy_label st)) MARKET
                     [(''short_ma'', MetaNum short_ma), (''long_ma'', MetaNum long_ma),
                      (''price'', MetaNum p), (''crossover_type'', MetaStr crossover_type)] of
                Inl e \<Rightarrow> (st, Inl e)
              | Inr signal \<Rightarrow>
                  (st\<lparr>last_signal_time := (last_signal_time st)(symb \<mapsto> ts)\<rparr>,
                   Inr (Some signal)))
           else (st, Inr None)))"

definition detect_crossover ::
  "MovingAverageCrossoverStrategy \<Rightarrow> string \<Rightarrow> int \<Rightarrow> string \<Rightarrow> real \<Rightarrow> real \<Rightarrow> real \<Rightarrow>
   real \<Rightarrow> real \<Rightarrow> int \<Rightarrow>
   MovingAverageCrossoverStrategy \<times> (py_error + TradeSignal option)" where
  "detect_crossover st uuid now symb p short_ma long_ma prev_short_ma prev_long_ma ts =
     (if (case last_signal_time st symb of
            None \<Rightarrow> False
          | Some last_time \<Rightarrow> ts - last_time < 5 * 60000000)
      then (st, Inr None)
      else if prev_short_ma \<le> prev_long_ma \<and> short_ma > long_ma then
        crossover_signal st uuid now symb p short_ma long_ma ts BUY ''bullish''
      else if prev_short_ma \<ge> prev_long_ma \<and> short_ma < long_ma then
        crossover_signal st uuid now symb p short_ma long_ma ts SELL ''bearish''
      else (st, Inr None))"

text \<open>
  \<^verbatim>\<open>process_market_event\<close>: the strategy afterwards and the signals returned, or the
  exception raised. The history is updated before anything can raise.
\<close>

definition process_market_event ::
  "MovingAverageCrossoverStrategy \<Rightarrow> string \<Rightarrow> int \<Rightarrow> MarketEvent \<Rightarrow>
   MovingAverageCrossoverStrategy \<times> (py_error + TradeSignal list)" where
  "process_market_event st uuid now event =
     (if \<not> strategy_is_active st \<or> market_event_type event \<noteq> TICK then (st, Inr [])
      else
        let symb = market_symbol event
        in if \<not> is_symbol_relevant st symb then (st, Inr [])
           else
             case extract_price (payload event) of
               None \<Rightarrow> (st, Inr [])
             | Some p \<Rightarrow>
                 (let st1 = update_price_history st symb p (market_timestamp event)
                  in case calculate_moving_averages st1 symb of
                       Inl e \<Rightarrow> (st1, Inl e)
                     | Inr None \<Rightarrow> (st1, Inr [])
                     | Inr (Some (short_ma, long_ma)) \<Rightarrow>
                         (case get_previous_moving_averages st1 symb of
                            Inl e \<Rightarrow> (st1, Inl e)
                          | Inr None \<Rightarrow> (st1, Inr [])
                          | Inr (Some (prev_short_ma, prev_long_ma)) \<Rightarrow>
                              (case detect_crossover st1 uuid now symb p short_ma long_ma
                                      prev_short_ma prev_long_ma (market_timestamp event) of
                                 (st2, Inl e) \<Rightarrow> (st2, Inl e)
                               | (st2, Inr None) \<Rightarrow> (st2, Inr [])
                               | (st2, Inr (Some signal)) \<Rightarrow> (st2, Inr [signal])))))"

text \<open>A sequence of market events, each with its fresh id and clock reading.\<close>

fun process_market_events ::
  "MovingAverageCrossoverStrategy \<Rightarrow> (string \<times> int \<times> MarketEvent) list \<Rightarrow>
   MovingAverageCrossoverStrategy" where
  "process_market_events st [] = st"
| "process_market_events st ((uuid, now, event) # rest) =
     process_market_events (fst (process_market_event st uuid now event)) rest"

section \<open>Concrete inputs\<close>

text \<open>
  Values on which the definitions above are run. The formatter prints the integer part
  of a number; it stands for the float formatting that the model leaves open.
\<close>

definition sample_formatter :: formatter where
  "sample_formatter =
     \<lparr> fmt_pct1 = (\<lambda>x. show_int \<lfloor>x * 100\<rfloor> @ ''%''),
       fmt_f2 = (\<lambda>x. show_int \<lfloor>x\<rfloor>),
       fmt_f0 = (\<lambda>x. show_int \<lfloor>x\<rfloor>) \<rparr>"

definition sample_signal :: TradeSignal where
  "sample_signal =
     \<lparr> signal_id = ''sig-1'',
       symbol = ''AAPL'',
       side = BUY,
       qty = 10,
       order_type = MARKET,
       confidence = 8 / 10,
       source = STRATEGY,
       created_at = 0,
       strategy_name = Some ''MA_Crossover'',
       price = None,
       stop_price = None,
       signal_metadata = [] \<rparr>"

text \<open>The same order again, ten seconds later.\<close>

definition sample_signal_later :: TradeSignal where
  "sample_signal_later = sample_signal\<lparr>signal_id := ''sig-2'', created_at := 10000000\<rparr>"

definition sample_account :: AccountSnapshot where
  "sample_account =
     \<lparr> equity = 100000, buying_power = 100000, cash = 100000,
       day_trades_remaining = 3, acct_timestamp = 0 \<rparr>"

text \<open>A Wednesday, at ten in the morning.\<close>

definition trading_hours :: local_time where
  "trading_hours = \<lparr> weekday = 2, hour = 10 \<rparr>"

definition sample_approved_trade :: ApprovedTrade where
  "sample_approved_trade =
     \<lparr> approved_signal = sample_signal, approved_at = 0, approved_metadata = [] \<rparr>"

text \<open>
  \<^verbatim>\<open>AlpacaBrokerAdapter.place_order\<close> on an adapter that is not connected: the check
  before the \<^verbatim>\<open>try\<close> block raises.
\<close>

definition place_order_not_connected :: "TradeSignal \<Rightarrow> py_error + OrderEvent" where
  "place_order_not_connected signal = Inl (ConnectionError ''Not connected to Alpaca'')"

text \<open>A connected adapter whose vendor reports the status \<^verbatim>\<open>pending_new\<close> for every order.\<close>

definition pending_new_adapter :: AlpacaBrokerAdapter where
  "pending_new_adapter =
     \<lparr> connected_flag = True,
       api_get_order = Some (\<lambda>oid. Inr \<lparr> ao_id = oid, ao_status = ''pending_new'',
                                         ao_filled_qty = None,
                                         ao_filled_avg_price = None \<rparr>) \<rparr>"

text \<open>The same weekday at three in the morning.\<close>

definition closed_hours :: local_time where
  "closed_hours = \<lparr> weekday = 2, hour = 3 \<rparr>"

definition sample_call :: validate_call where
  "sample_call =
     \<lparr> call_time = trading_hours, call_now = 0, call_signal = sample_signal,
       call_account = sample_account, call_positions = [] \<rparr>"

text \<open>The strategy of the repository's test script, and a tick for its symbol.\<close>

definition sample_strategy :: MovingAverageCrossoverStrategy where
  "sample_strategy = MovingAverageCrossoverStrategy_init [''SPY''] 5 10 (6 / 10)"

definition sample_tick :: MarketEvent where
  "sample_tick =
     \<lparr> market_event_type = TICK, market_symbol = ''SPY'', market_timestamp = 0,
       payload = [''price'' \<mapsto> 100] \<rparr>"

section \<open>Notions used in the statements\<close>

text \<open>
  The confidence as the specification words it: the directional price factor, capped
  at 0.2, and the sum with the base 0.5 and the gap factor, capped at 1.
\<close>

definition spec_price_factor :: "bool \<Rightarrow> real \<Rightarrow> real \<Rightarrow> real" where
  "spec_price_factor bullish p long_ma =
     (if bullish \<and> p > long_ma then min ((p - long_ma) / long_ma * 5) (2 / 10)
      else if \<not> bullish \<and> p < long_ma then min ((long_ma - p) / long_ma * 5) (2 / 10)
      else 0)"

definition spec_confidence :: "bool \<Rightarrow> real \<Rightarrow> real \<Rightarrow> real \<Rightarrow> real" where
  "spec_confidence bullish p short_ma long_ma =
     min (5 / 10 + min (\<bar>short_ma - long_ma\<bar> / long_ma * 10) (3 / 10) +
          spec_price_factor bullish p long_ma) 1"

text \<open>The newest \<open>n\<close> entries of a buffer.\<close>

definition newest :: "nat \<Rightarrow> 'a list \<Rightarrow> 'a list" where
  "newest n xs = drop (length xs - n) xs"

text \<open>
  A market event is processed by the strategy when it passes the guards at the head of
  \<^verbatim>\<open>process_market_event\<close>: the strategy is active, the event is a tick for one of
  its symbols, and the payload yields a price.
\<close>

definition tick_processed :: "MovingAverageCrossoverStrategy \<Rightarrow> MarketEvent \<Rightarrow> bool" where
  "tick_processed st event \<longleftrightarrow>
     strategy_is_active st \<and> market_event_type event = TICK \<and>
     market_symbol event \<in> symbols st \<and> extract_price (payload event) \<noteq> None"

text \<open>Every price history of the strategy holds at most \<open>long_period + 10\<close> entries.\<close>

definition history_bounded :: "MovingAverageCrossoverStrategy \<Rightarrow> bool" where
  "history_bounded st \<longleftrightarrow>
     (\<forall>symb h. price_history st symb = Some h \<longrightarrow> int (length h) \<le> long_period st + 10)"

section \<open>Construction of trade signals\<close>

text \<open>
  Claim C9. Constructing a \<^verbatim>\<open>TradeSignal\<close> raises exactly when the confidence is
  below 0 or above 1, or the quantity is not positive, or a price is present and not
  positive. In particular the boundary confidences 0 and 1 and the quantity 1 are
  accepted, and the quantity 0 raises.
\<close>

theorem trade_signal_construction:
  "((\<exists>e. TradeSignal_post_init s = Inl e) \<longleftrightarrow>
      (confidence s < 0 \<or> confidence s > 1 \<or> qty s \<le> 0 \<or>
       (\<exists>p. price s = Some p \<and> p \<le> 0))) \<and>
   TradeSignal_post_init (sample_signal\<lparr>confidence := 0\<rparr>) =
     Inr (sample_signal\<lparr>confidence := 0\<rparr>) \<and>
   TradeSignal_post_init (sample_signal\<lparr>confidence := 1\<rparr>) =
     Inr (sample_signal\<lparr>confidence := 1\<rparr>) \<and>
   TradeSignal_post_init (sample_signal\<lparr>qty := 1\<rparr>) = Inr (sample_signal\<lparr>qty := 1\<rparr>) \<and>
   TradeSignal_post_init (sample_signal\<lparr>qty := 0\<rparr>) =
     Inl (ValueError ''Quantity must be positive'')"
proof -
  have general: "(\<exists>e. TradeSignal_post_init s = Inl e) \<longleftrightarrow>
      (confidence s < 0 \<or> confidence s > 1 \<or> qty s \<le> 0 \<or>
       (\<exists>p. price s = Some p \<and> p \<le> 0))"
    by (auto simp: TradeSignal_post_init_def)
  have boundary:
    "TradeSignal_post_init (sample_signal\<lparr>confidence := 0\<rparr>) =
       Inr (sample_signal\<lparr>confidence := 0\<rparr>)"
    "TradeSignal_post_init (sample_signal\<lparr>confidence := 1\<rparr>) =
       Inr (sample_signal\<lparr>confidence := 1\<rparr>)"
    "TradeSignal_post_init (sample_signal\<lparr>qty := 1\<rparr>) = Inr (sample_signal\<lparr>qty := 1\<rparr>)"
    "TradeSignal_post_init (sample_signal\<lparr>qty := 0\<rparr>) =
       Inl (ValueError ''Quantity must be positive'')"
    by (simp_all add: TradeSignal_post_init_def sample_signal_def)
  from general boundary show ?thesis by blast
qed

section \<open>Normalisation of vendor statuses\<close>

text \<open>
  Claim C1, as amended. \<^verbatim>\<open>get_order_status\<close> reports the status that
  \<^verbatim>\<open>_convert_order_status\<close> assigns to the vendor's string, and the table is:
  new, accepted, accepted_for_bidding and calculated give SUBMITTED; partially_filled
  gives PARTIALLY_FILLED; filled gives FILLED; canceled, expired, replaced, stopped,
  done_for_day and suspended give CANCELLED; rejected gives REJECTED; pending_cancel,
  pending_replace and pending_new give PENDING.
\<close>

theorem order_status_table:
  "map convert_order_status
     [''new'', ''accepted'', ''accepted_for_bidding'', ''calculated'',
      ''partially_filled'', ''filled'',
      ''canceled'', ''expired'', ''replaced'', ''stopped'', ''done_for_day'', ''suspended'',
      ''rejected'', ''pending_cancel'', ''pending_replace'', ''pending_new''] =
     [SUBMITTED, SUBMITTED, SUBMITTED, SUBMITTED, PARTIALLY_FILLED, FILLED,
      CANCELLED, CANCELLED, CANCELLED, CANCELLED, CANCELLED, CANCELLED,
      REJECTED, PENDING, PENDING, PENDING] \<and>
   (is_connected a \<and> the (api_get_order a) oid = Inr ord \<longrightarrow>
      (\<exists>ev. get_order_status a uuid now oid = Inr ev \<and>
            status ev = convert_order_status (ao_status ord)))"
  by (simp add: convert_order_status_def order_status_mapping_def lower_def lower_char_def
      get_order_status_def)

text \<open>The theorem at an adapter whose vendor answers \<^verbatim>\<open>pending_new\<close>.\<close>

theorem order_status_table_witness:
  "is_connected pending_new_adapter \<and>
   (\<exists>ev. get_order_status pending_new_adapter ''uuid-1'' 0 ''order-1'' = Inr ev \<and>
         status ev = PENDING)"
proof -
  let ?ord = "\<lparr> ao_id = ''order-1'', ao_status = ''pending_new'', ao_filled_qty = None,
                 ao_filled_avg_price = None \<rparr>"
  have c: "is_connected pending_new_adapter"
    by (simp add: is_connected_def pending_new_adapter_def)
  have g: "the (api_get_order pending_new_adapter) ''order-1'' = Inr ?ord"
    by (simp add: pending_new_adapter_def)
  note t = order_status_table [of pending_new_adapter "''order-1''" ?ord "''uuid-1''" 0]
  have table: "convert_order_status ''pending_new'' = PENDING"
    using t [THEN conjunct1] by simp
  have run: "is_connected pending_new_adapter \<and>
              the (api_get_order pending_new_adapter) ''order-1'' = Inr ?ord \<longrightarrow>
              (\<exists>ev. get_order_status pending_new_adapter ''uuid-1'' 0 ''order-1'' = Inr ev \<and>
                    status ev = convert_order_status (ao_status ?ord))"
    by (rule t [THEN conjunct2])
  from run c g table show ?thesis by simp
qed

text \<open>
  Claim C1 as stated fails: the vendor status \<^verbatim>\<open>pending_new\<close> is normalised to
  PENDING, not to SUBMITTED.
\<close>

theorem pending_new_counterexample:
  "get_order_status pending_new_adapter ''uuid-1'' 0 ''order-1'' =
     Inr \<lparr> order_id = ''uuid-1'', order_signal_id = '''', status = PENDING, timestamp = 0,
           broker_order_id = Some ''order-1'', filled_qty = 0, filled_price = None,
           order_rejection_reason = None \<rparr> \<and>
   convert_order_status ''pending_new'' \<noteq> SUBMITTED"
  by (simp add: get_order_status_def is_connected_def pending_new_adapter_def
      convert_order_status_def order_status_mapping_def lower_def lower_char_def)

text \<open>
  Claim C10. The conversion is a total function: it has no failing branch, and every
  string whose lower-case form is not one of the sixteen keys of the table is
  normalised to PENDING.
\<close>

theorem unknown_status_is_pending:
  assumes "lower alpaca_status \<notin> fst ` set order_status_mapping"
  shows "convert_order_status alpaca_status = PENDING \<and> length order_status_mapping = 16"
proof -
  from assms have "map_of order_status_mapping (lower alpaca_status) = None"
    by (simp add: map_of_eq_None_iff)
  then show ?thesis by (simp add: convert_order_status_def order_status_mapping_def)
qed

text \<open>The theorem at the status \<^verbatim>\<open>HELD\<close>, which the table does not list.\<close>

theorem unknown_status_is_pending_witness:
  "lower ''HELD'' = ''held'' \<and> convert_order_status ''HELD'' = PENDING \<and>
   length order_status_mapping = 16"
proof -
  have l: "lower ''HELD'' = ''held''" by code_simp
  have "lower ''HELD'' \<notin> fst ` set order_status_mapping"
    unfolding l by (simp add: order_status_mapping_def)
  from unknown_status_is_pending [OF this] l show ?thesis by simp
qed

section \<open>Execution of approved trades\<close>

text \<open>
  Claim C2. When the broker call raises, the engine counts a rejected order and returns
  to IDLE, but the REJECTED event it builds is dropped: the order history is left as it
  was. Here the engine is fresh and the adapter is not connected.
\<close>

theorem execution_error_not_recorded:
  "orders_rejected (stats (fst (execute_approved_trade ExecutionEngine_init
       place_order_not_connected 0 1 sample_approved_trade))) = 1 \<and>
   order_history (fst (execute_approved_trade ExecutionEngine_init
       place_order_not_connected 0 1 sample_approved_trade)) = Map.empty \<and>
   exec_status (fst (execute_approved_trade ExecutionEngine_init
       place_order_not_connected 0 1 sample_approved_trade)) = IDLE"
  by (simp add: execute_approved_trade_def ExecutionEngine_init_def
      place_order_not_connected_def Let_def)

section \<open>The rule pipeline\<close>

lemma default_rules:
  "rules (RiskEngine_init fmt) =
     [MaxPositionSizeRule fmt (5 / 100), MaxPositionsPerSymbolRule 2,
      MinConfidenceRule fmt (6 / 10), DuplicateSignalRule fmt 1, MarketHoursRule]"
  by (simp add: RiskEngine_init_def setup_default_rules_def add_rule_def)

lemma init_fields:
  "is_active (RiskEngine_init fmt)"
  "recent_signals (RiskEngine_init fmt) = []"
  "max_recent_signals (RiskEngine_init fmt) = 1000"
  by (simp_all add: RiskEngine_init_def setup_default_rules_def add_rule_def)

lemma sample_passes_first_three:
  assumes "j < 3" and "s = sample_signal \<or> s = sample_signal_later"
  shows "validate (rules (RiskEngine_init fmt) ! j) s sample_account [] rs lt =
           Inr (True, None)"
proof -
  from assms(1) have "j = 0 \<or> j = 1 \<or> j = 2" by arith
  with assms(2) show ?thesis
    by (auto simp: default_rules MaxPositionSizeRule_def MaxPositionSizeRule_validate_def
        MaxPositionsPerSymbolRule_def MaxPositionsPerSymbolRule_validate_def
        MinConfidenceRule_def MinConfidenceRule_validate_def
        sample_signal_def sample_signal_later_def sample_account_def Let_def)
qed

lemma no_duplicate_in_empty:
  "validate (rules (RiskEngine_init fmt) ! 3) s a ps [] lt = Inr (True, None)"
  by (simp add: default_rules DuplicateSignalRule_def DuplicateSignalRule_validate_def)

lemma market_open:
  "validate (rules (RiskEngine_init fmt) ! 4) s a ps rs trading_hours = Inr (True, None)"
  by (simp add: default_rules MarketHoursRule_def MarketHoursRule_validate_def
      trading_hours_def)

lemma market_closed:
  "validate (rules (RiskEngine_init fmt) ! 4) s a ps rs closed_hours =
     Inr (False, Some ''Market is closed (outside trading hours)'')"
  by (simp add: default_rules MarketHoursRule_def MarketHoursRule_validate_def
      closed_hours_def)

lemma rule_names:
  "rule_name (MaxPositionSizeRule fmt pct) = ''max_position_size''"
  "rule_name (MaxPositionsPerSymbolRule n) = ''max_positions_per_symbol''"
  "rule_name (MinConfidenceRule fmt c) = ''min_confidence''"
  "rule_name (DuplicateSignalRule fmt m) = ''duplicate_signal''"
  "rule_name MarketHoursRule = ''market_hours''"
  by (simp_all add: MaxPositionSizeRule_def MaxPositionsPerSymbolRule_def MinConfidenceRule_def
      DuplicateSignalRule_def MarketHoursRule_def)

lemma run_rules_first_failure:
  "i < length rs \<Longrightarrow>
   (\<forall>j<i. \<exists>r. validate (rs ! j) s a ps rec lt = Inr (True, r)) \<Longrightarrow>
   validate (rs ! i) s a ps rec lt = Inr (False, reason) \<Longrightarrow>
   \<exists>rt. run_rules rs s a ps rec lt now md =
          (Returned rt [create_signal_rejected_event rt], map rule_name (take (Suc i) rs)) \<and>
        rejection_reason rt = rule_name (rs ! i) @ '': '' @ str_of_reason reason \<and>
        rejected_signal rt = s"
proof (induction rs arbitrary: i md)
  case Nil
  then show ?case by simp
next
  case (Cons r rs)
  show ?case
  proof (cases i)
    case 0
    with Cons.prems show ?thesis by (simp add: Let_def)
  next
    case (Suc k)
    from Cons.prems(2) Suc obtain r0 where r0: "validate r s a ps rec lt = Inr (True, r0)"
      by fastforce
    have k: "k < length rs" using Cons.prems(1) Suc by simp
    have pass: "\<forall>j<k. \<exists>r. validate (rs ! j) s a ps rec lt = Inr (True, r)"
      using Cons.prems(2) Suc by fastforce
    have fail: "validate (rs ! k) s a ps rec lt = Inr (False, reason)"
      using Cons.prems(3) Suc by simp
    from Cons.IH [OF k pass fail]
    obtain rt where "run_rules rs s a ps rec lt now
        (AList.update (''rule_'' @ rule_name r) (RuleOutcome True r0) md) =
          (Returned rt [create_signal_rejected_event rt], map rule_name (take (Suc k) rs))"
      and "rejection_reason rt = rule_name (rs ! k) @ '': '' @ str_of_reason reason"
      and "rejected_signal rt = s"
      by blast
    then show ?thesis using r0 Suc by (simp add: Let_def)
  qed
qed

lemma run_rules_finished:
  "run_rules rs s a ps rec lt now md = (Finished md', tr) \<Longrightarrow>
   (\<forall>r\<in>set rs. \<exists>reason. validate r s a ps rec lt = Inr (True, reason)) \<and>
   tr = map rule_name rs"
proof (induction rs arbitrary: md tr)
  case Nil
  then show ?case by simp
next
  case (Cons r rs)
  then show ?case
    by (auto split: sum.splits prod.splits if_splits simp: Let_def)
qed

text \<open>
  The exit of \<^verbatim>\<open>validate_signal\<close> for a deactivated engine: no rule is evaluated, the
  engine is left unchanged, and the caller gets a \<^verbatim>\<open>RejectedTrade\<close> for the signal
  whose reason is exactly \<^verbatim>\<open>Risk engine is disabled\<close>. No broker is involved: the risk
  engine holds no broker handle, and \<open>validate_signal\<close> has none among its arguments.
\<close>

theorem disabled_engine_rejects:
  assumes "\<not> is_active e"
  shows "\<exists>rt. outcome (validate_signal e lt now s a ps) = Rejected rt \<and>
           rejection_reason rt = ''Risk engine is disabled'' \<and>
           rejected_signal rt = s \<and>
           rules_evaluated (validate_signal e lt now s a ps) = [] \<and>
           engine_after (validate_signal e lt now s a ps) = e"
  using assms by (simp add: validate_signal_def)

text \<open>This exit on the default engine after \<^verbatim>\<open>deactivate\<close>.\<close>

theorem disabled_engine_rejects_witness:
  "\<not> is_active (deactivate (RiskEngine_init sample_formatter)) \<and>
   (\<exists>rt. outcome (validate_signal (deactivate (RiskEngine_init sample_formatter))
                   trading_hours 0 sample_signal sample_account []) = Rejected rt \<and>
         rejection_reason rt = ''Risk engine is disabled'' \<and>
         rules_evaluated (validate_signal (deactivate (RiskEngine_init sample_formatter))
                   trading_hours 0 sample_signal sample_account []) = [])"
proof -
  have off: "\<not> is_active (deactivate (RiskEngine_init sample_formatter))"
    by (simp add: deactivate_def)
  from disabled_engine_rejects [OF off, of trading_hours 0 sample_signal sample_account "[]"]
    off
  show ?thesis by blast
qed

text \<open>
  Claim C3. A deactivated engine is to reject every signal with the reason
  \<^verbatim>\<open>Risk engine is disabled\<close> and to publish a \<^verbatim>\<open>SignalRejected\<close> event for it.
  On the default engine after \<^verbatim>\<open>deactivate\<close> the code returns that rejection and
  hands nothing to the event publisher, whereas the exit for a failing rule publishes
  the rejection it returns.
\<close>

theorem disabled_engine_publishes_nothing:
  "outcome (validate_signal (deactivate (RiskEngine_init sample_formatter))
              trading_hours 0 sample_signal sample_account []) =
     Rejected \<lparr> rejected_signal = sample_signal, rejected_at = 0,
                rejection_reason = ''Risk engine is disabled'',
                rejected_metadata = [(''engine_disabled'', MetaBool True)] \<rparr> \<and>
   published (validate_signal (deactivate (RiskEngine_init sample_formatter))
              trading_hours 0 sample_signal sample_account []) = []"
  by (simp add: validate_signal_def deactivate_def)

text \<open>
  Claim C4. On an active engine the rules run in their registered order. If the rules
  before position \<open>i\<close> pass and rule \<open>i\<close> returns a failure with \<open>reason\<close>, then
  exactly the rules up to \<open>i\<close> are evaluated, the rejection reason is the name of rule
  \<open>i\<close>, a colon and a blank, and the reason, so it begins with that name, and the
  rejection is published.
\<close>

theorem first_failing_rule_rejects:
  assumes act: "is_active e"
    and i: "i < length (rules e)"
    and pass: "\<forall>j<i. \<exists>r. validate (rules e ! j) s a ps (recent_signals e) lt = Inr (True, r)"
    and fail: "validate (rules e ! i) s a ps (recent_signals e) lt = Inr (False, reason)"
  shows "\<exists>rt. outcome (validate_signal e lt now s a ps) = Rejected rt \<and>
           rejection_reason rt = rule_name (rules e ! i) @ '': '' @ str_of_reason reason \<and>
           prefix (rule_name (rules e ! i)) (rejection_reason rt) \<and>
           rules_evaluated (validate_signal e lt now s a ps) =
             map rule_name (take (Suc i) (rules e)) \<and>
           published (validate_signal e lt now s a ps) = [create_signal_rejected_event rt]"
proof -
  from run_rules_first_failure [OF i pass fail, of now "[]"]
  obtain rt where rr: "run_rules (rules e) s a ps (recent_signals e) lt now [] =
          (Returned rt [create_signal_rejected_event rt],
           map rule_name (take (Suc i) (rules e)))"
    and reason: "rejection_reason rt = rule_name (rules e ! i) @ '': '' @ str_of_reason reason"
    by blast
  show ?thesis using act rr reason by (simp add: validate_signal_def)
qed

text \<open>
  The theorem on the default engine outside trading hours: the first four rules pass
  and the fifth, \<^verbatim>\<open>market_hours\<close>, rejects.
\<close>

theorem first_failing_rule_rejects_witness:
  "is_active (RiskEngine_init sample_formatter) \<and>
   (\<exists>rt. outcome (validate_signal (RiskEngine_init sample_formatter) closed_hours 0
                   sample_signal sample_account []) = Rejected rt \<and>
         rejection_reason rt = ''market_hours: Market is closed (outside trading hours)'' \<and>
         rules_evaluated (validate_signal (RiskEngine_init sample_formatter) closed_hours 0
                   sample_signal sample_account []) =
           [''max_position_size'', ''max_positions_per_symbol'', ''min_confidence'',
            ''duplicate_signal'', ''market_hours''])"
proof -
  let ?e = "RiskEngine_init sample_formatter"
  have act: "is_active ?e" by (rule init_fields)
  have i: "4 < length (rules ?e)" by (simp add: default_rules)
  have pass: "\<forall>j<4. \<exists>r. validate (rules ?e ! j) sample_signal sample_account []
                            (recent_signals ?e) closed_hours = Inr (True, r)"
  proof (intro allI impI)
    fix j :: nat assume "j < 4"
    then have "j < 3 \<or> j = 3" by arith
    then show "\<exists>r. validate (rules ?e ! j) sample_signal sample_account []
                      (recent_signals ?e) closed_hours = Inr (True, r)"
      using sample_passes_first_three [of j sample_signal] no_duplicate_in_empty
      by (auto simp: init_fields)
  qed
  have fail: "validate (rules ?e ! 4) sample_signal sample_account [] (recent_signals ?e)
                closed_hours = Inr (False, Some ''Market is closed (outside trading hours)'')"
    by (rule market_closed)
  from first_failing_rule_rejects [OF act i pass fail, of 0] act
  show ?thesis by (auto simp: default_rules rule_names)
qed

section \<open>The recent-signals buffer\<close>

lemma py_slice_from_neg:
  "0 < k \<Longrightarrow> py_slice_from xs (- int k) = newest k xs"
  by (auto simp: py_slice_from_def newest_def Let_def max_def nat_diff_distrib')

lemma newest_length: "length (newest n xs) \<le> n"
  by (simp add: newest_def)

lemma newest_snoc: "0 < n \<Longrightarrow> x \<in> set (newest n (xs @ [x]))"
  by (simp add: newest_def)

lemma add_recent_signal_1000:
  "max_recent_signals e = 1000 \<Longrightarrow>
   recent_signals (add_recent_signal e s) =
     (if length (recent_signals e) + 1 > 1000
      then newest 500 (recent_signals e @ [s])
      else recent_signals e @ [s])"
  using py_slice_from_neg [of 500 "recent_signals e @ [s]"]
  by (simp add: add_recent_signal_def Let_def)

lemma add_recent_signal_fields:
  "max_recent_signals (add_recent_signal e s) = max_recent_signals e"
  "rules (add_recent_signal e s) = rules e"
  "is_active (add_recent_signal e s) = is_active e"
  by (simp_all add: add_recent_signal_def Let_def)

lemma validate_signal_engine:
  "engine_after (validate_signal e lt now s a ps) =
     (case outcome (validate_signal e lt now s a ps) of
        Approved _ \<Rightarrow> add_recent_signal e s
      | Rejected _ \<Rightarrow> e)"
  by (simp add: validate_signal_def Let_def split: prod.splits loop_exit.splits)

lemma validate_signal_approved:
  "outcome (validate_signal e lt now s a ps) = Approved apt \<Longrightarrow>
   is_active e \<and>
   (\<forall>r\<in>set (rules e). \<exists>reason. validate r s a ps (recent_signals e) lt = Inr (True, reason))"
  by (auto simp: validate_signal_def Let_def split: prod.splits loop_exit.splits if_splits
      dest!: run_rules_finished)

lemma validate_signal_bound:
  assumes "max_recent_signals e = 1000" "length (recent_signals e) \<le> 1000"
  shows "max_recent_signals (engine_after (validate_signal e lt now s a ps)) = 1000 \<and>
         length (recent_signals (engine_after (validate_signal e lt now s a ps))) \<le> 1000"
proof (cases "outcome (validate_signal e lt now s a ps)")
  case (Approved apt)
  then have "engine_after (validate_signal e lt now s a ps) = add_recent_signal e s"
    by (simp add: validate_signal_engine)
  then show ?thesis
    using assms newest_length [of 500 "recent_signals e @ [s]"]
    by (simp add: add_recent_signal_1000 add_recent_signal_fields)
next
  case (Rejected rt)
  then show ?thesis using assms by (simp add: validate_signal_engine)
qed

lemma validate_signals_bound:
  "max_recent_signals e = 1000 \<Longrightarrow> length (recent_signals e) \<le> 1000 \<Longrightarrow>
   length (recent_signals (validate_signals e calls)) \<le> 1000"
proof (induction calls arbitrary: e)
  case Nil
  then show ?case by simp
next
  case (Cons c calls)
  from validate_signal_bound [OF Cons.prems]
  show ?case using Cons.IH by simp
qed

lemma run_rules_all_pass:
  "(\<forall>r\<in>set rs. \<exists>reason. validate r s a ps rec lt = Inr (True, reason)) \<Longrightarrow>
   \<exists>md'. run_rules rs s a ps rec lt now md = (Finished md', map rule_name rs)"
proof (induction rs arbitrary: md)
  case Nil
  then show ?case by simp
next
  case (Cons r rs)
  from Cons.prems obtain r0 where r0: "validate r s a ps rec lt = Inr (True, r0)"
    by auto
  from Cons.prems have "\<forall>r\<in>set rs. \<exists>reason. validate r s a ps rec lt = Inr (True, reason)"
    by simp
  from Cons.IH [OF this]
  obtain md' where "run_rules rs s a ps rec lt now
      (AList.update (''rule_'' @ rule_name r) (RuleOutcome True r0) md) =
        (Finished md', map rule_name rs)"
    by blast
  then show ?case using r0 by (simp add: Let_def)
qed

lemma sample_signal_approved:
  "\<exists>apt. outcome (validate_signal (RiskEngine_init fmt) trading_hours 0 sample_signal
                    sample_account []) = Approved apt"
proof -
  let ?e = "RiskEngine_init fmt"
  have "\<forall>j<length (rules ?e).
          \<exists>reason. validate (rules ?e ! j) sample_signal sample_account []
                     (recent_signals ?e) trading_hours = Inr (True, reason)"
  proof (intro allI impI)
    fix j assume "j < length (rules ?e)"
    then have "j < 3 \<or> j = 3 \<or> j = 4" by (auto simp: default_rules)
    then show "\<exists>reason. validate (rules ?e ! j) sample_signal sample_account []
                     (recent_signals ?e) trading_hours = Inr (True, reason)"
      using sample_passes_first_three [of j sample_signal] no_duplicate_in_empty market_open
      by (auto simp: init_fields)
  qed
  then have "\<forall>r\<in>set (rules ?e).
          \<exists>reason. validate r sample_signal sample_account []
                     (recent_signals ?e) trading_hours = Inr (True, reason)"
    by (simp add: all_set_conv_all_nth)
  from run_rules_all_pass [OF this, of 0 "[]"]
  show ?thesis by (auto simp: validate_signal_def init_fields Let_def)
qed

text \<open>
  Claim C5. On an engine with the capacity 1000 whose buffer holds at most 1000 signals,
  as the constructor leaves it, the buffer holds at most 1000 signals after every sequence
  of calls of \<^verbatim>\<open>validate_signal\<close>. A rejection leaves the buffer as it was. An approval
  means that every rule passed, and appends the signal; when that makes more than 1000
  entries, the newest 500 are kept.
\<close>

theorem recent_signals_bounded:
  assumes cap: "max_recent_signals e = 1000"
    and len: "length (recent_signals e) \<le> 1000"
  shows "length (recent_signals (validate_signals e calls)) \<le> 1000 \<and>
         (\<forall>rt. outcome (validate_signal e lt now s a ps) = Rejected rt \<longrightarrow>
            recent_signals (engine_after (validate_signal e lt now s a ps)) =
              recent_signals e) \<and>
         (\<forall>apt. outcome (validate_signal e lt now s a ps) = Approved apt \<longrightarrow>
            (\<forall>r\<in>set (rules e).
               \<exists>reason. validate r s a ps (recent_signals e) lt = Inr (True, reason)) \<and>
            recent_signals (engine_after (validate_signal e lt now s a ps)) =
              (if length (recent_signals e) + 1 > 1000
               then newest 500 (recent_signals e @ [s])
               else recent_signals e @ [s]))"
proof (intro conjI allI impI)
  show "length (recent_signals (validate_signals e calls)) \<le> 1000"
    using cap len by (rule validate_signals_bound)
next
  fix rt
  assume "outcome (validate_signal e lt now s a ps) = Rejected rt"
  then show "recent_signals (engine_after (validate_signal e lt now s a ps)) =
               recent_signals e"
    by (simp add: validate_signal_engine)
next
  fix apt
  assume "outcome (validate_signal e lt now s a ps) = Approved apt"
  then show "\<forall>r\<in>set (rules e).
               \<exists>reason. validate r s a ps (recent_signals e) lt = Inr (True, reason)"
    using validate_signal_approved by blast
next
  fix apt
  assume "outcome (validate_signal e lt now s a ps) = Approved apt"
  then show "recent_signals (engine_after (validate_signal e lt now s a ps)) =
               (if length (recent_signals e) + 1 > 1000
                then newest 500 (recent_signals e @ [s])
                else recent_signals e @ [s])"
    using cap by (simp add: validate_signal_engine add_recent_signal_1000)
qed

text \<open>The theorem on the default engine, for one call that approves the sample signal.\<close>

theorem recent_signals_bounded_witness:
  "max_recent_signals (RiskEngine_init sample_formatter) = 1000 \<and>
   length (recent_signals (RiskEngine_init sample_formatter)) \<le> 1000 \<and>
   length (recent_signals (validate_signals (RiskEngine_init sample_formatter)
      [sample_call])) \<le> 1000 \<and>
   recent_signals (engine_after (validate_signal (RiskEngine_init sample_formatter)
      trading_hours 0 sample_signal sample_account [])) = [sample_signal]"
proof -
  let ?e = "RiskEngine_init sample_formatter"
  have cap: "max_recent_signals ?e = 1000" by (rule init_fields)
  have len: "length (recent_signals ?e) \<le> 1000" by (simp add: init_fields)
  obtain apt where ok: "outcome (validate_signal ?e trading_hours 0 sample_signal
      sample_account []) = Approved apt"
    using sample_signal_approved by blast
  from recent_signals_bounded [OF cap len, of "[sample_call]" trading_hours 0 sample_signal
      sample_account "[]"] ok cap len
  show ?thesis by (simp add: init_fields)
qed

section \<open>Duplicate signals\<close>

lemma duplicate_in_iff:
  "duplicate_in s c rs \<longleftrightarrow>
     (\<exists>r\<in>set rs. symbol r = symbol s \<and> side r = side s \<and> created_at r > c)"
  by (induction rs) auto

text \<open>
  Claim C6. Let an engine with the default rules and the capacity 1000 approve a signal
  \<open>s1\<close>, and let \<open>s2\<close> have the same symbol and side and be created less than one
  minute after \<open>s1\<close> (or before it). If \<open>s2\<close> passes the rules
  \<^verbatim>\<open>max_position_size\<close>, \<^verbatim>\<open>max_positions_per_symbol\<close> and \<^verbatim>\<open>min_confidence\<close>, the
  next call rejects it with a reason that begins with \<^verbatim>\<open>duplicate_signal\<close>.
\<close>

theorem duplicate_signal_rejected:
  assumes rules: "rules e = rules (RiskEngine_init fmt)"
    and cap: "max_recent_signals e = 1000"
    and approved: "outcome (validate_signal e lt1 now1 s1 a1 ps1) = Approved apt"
    and e1: "e1 = engine_after (validate_signal e lt1 now1 s1 a1 ps1)"
    and same_symbol: "symbol s2 = symbol s1"
    and same_side: "side s2 = side s1"
    and within: "created_at s2 - created_at s1 < 60000000"
    and size_ok: "validate (MaxPositionSizeRule fmt (5 / 100)) s2 a2 ps2
                    (recent_signals e1) lt2 = Inr (True, None)"
    and count_ok: "validate (MaxPositionsPerSymbolRule 2) s2 a2 ps2
                    (recent_signals e1) lt2 = Inr (True, None)"
    and conf_ok: "validate (MinConfidenceRule fmt (6 / 10)) s2 a2 ps2
                    (recent_signals e1) lt2 = Inr (True, None)"
  shows "\<exists>rt. outcome (validate_signal e1 lt2 now2 s2 a2 ps2) = Rejected rt \<and>
              prefix ''duplicate_signal'' (rejection_reason rt)"
proof -
  have e1_eq: "e1 = add_recent_signal e s1"
    using approved e1 by (simp add: validate_signal_engine)
  have act: "is_active e1"
    using validate_signal_approved [OF approved] e1_eq by (simp add: add_recent_signal_fields)
  have rs: "rules e1 =
     [MaxPositionSizeRule fmt (5 / 100), MaxPositionsPerSymbolRule 2,
      MinConfidenceRule fmt (6 / 10), DuplicateSignalRule fmt 1, MarketHoursRule]"
    using rules e1_eq by (simp add: add_recent_signal_fields default_rules)
  have mem: "s1 \<in> set (recent_signals e1)"
    using newest_snoc [of 500 s1 "recent_signals e"] cap e1_eq
    by (simp add: add_recent_signal_1000)
  have dup: "duplicate_in s2 (created_at s2 - 1 * 60000000) (recent_signals e1)"
    unfolding duplicate_in_iff using mem same_symbol same_side within
    by (intro bexI [of _ s1]) auto
  obtain msg where fail:
    "validate (DuplicateSignalRule fmt 1) s2 a2 ps2 (recent_signals e1) lt2 =
       Inr (False, Some msg)"
    using dup by (simp add: DuplicateSignalRule_def DuplicateSignalRule_validate_def Let_def)
  have i: "(3::nat) < length (rules e1)" using rs by simp
  have pass: "\<forall>j<3. \<exists>r. validate (rules e1 ! j) s2 a2 ps2 (recent_signals e1) lt2 =
                          Inr (True, r)"
  proof (intro allI impI)
    fix j :: nat assume "j < 3"
    then have "j = 0 \<or> j = 1 \<or> j = 2" by arith
    then show "\<exists>r. validate (rules e1 ! j) s2 a2 ps2 (recent_signals e1) lt2 = Inr (True, r)"
      using rs size_ok count_ok conf_ok by auto
  qed
  have fail': "validate (rules e1 ! 3) s2 a2 ps2 (recent_signals e1) lt2 =
                 Inr (False, Some msg)"
    using rs fail by simp
  from run_rules_first_failure [OF i pass fail', of now2 "[]"]
  obtain rt where rr: "run_rules (rules e1) s2 a2 ps2 (recent_signals e1) lt2 now2 [] =
          (Returned rt [create_signal_rejected_event rt],
           map rule_name (take (Suc 3) (rules e1)))"
    and reason: "rejection_reason rt =
                   rule_name (rules e1 ! 3) @ '': '' @ str_of_reason (Some msg)"
    by blast
  have "rule_name (rules e1 ! 3) = ''duplicate_signal''"
    using rs by (simp add: rule_names)
  then have "prefix ''duplicate_signal'' (rejection_reason rt)"
    using reason by (simp add: prefix_def)
  then show ?thesis using act rr by (simp add: validate_signal_def)
qed

text \<open>
  The theorem on the default engine: the sample signal is approved, and the same order
  ten seconds later is rejected as a duplicate.
\<close>

theorem duplicate_signal_rejected_witness:
  "(\<exists>apt. outcome (validate_signal (RiskEngine_init sample_formatter) trading_hours 0
                  sample_signal sample_account []) = Approved apt) \<and>
   created_at sample_signal_later - created_at sample_signal < 60000000 \<and>
   (\<exists>rt. outcome (validate_signal
                  (engine_after (validate_signal (RiskEngine_init sample_formatter)
                     trading_hours 0 sample_signal sample_account []))
                  trading_hours 10000000 sample_signal_later sample_account []) =
           Rejected rt \<and>
         prefix ''duplicate_signal'' (rejection_reason rt))"
proof -
  let ?e = "RiskEngine_init sample_formatter"
  let ?e1 = "engine_after (validate_signal ?e trading_hours 0 sample_signal sample_account [])"
  obtain apt where ok: "outcome (validate_signal ?e trading_hours 0 sample_signal
      sample_account []) = Approved apt"
    using sample_signal_approved by blast
  have cap: "max_recent_signals ?e = 1000" by (rule init_fields)
  have sy: "symbol sample_signal_later = symbol sample_signal"
    and si: "side sample_signal_later = side sample_signal"
    and within: "created_at sample_signal_later - created_at sample_signal < 60000000"
    by (simp_all add: sample_signal_later_def sample_signal_def)
  have p0: "validate (MaxPositionSizeRule sample_formatter (5 / 100)) sample_signal_later
              sample_account [] (recent_signals ?e1) trading_hours = Inr (True, None)"
    using sample_passes_first_three [of 0 sample_signal_later sample_formatter]
    by (simp only: default_rules nth_Cons_0) simp
  have p1: "validate (MaxPositionsPerSymbolRule 2) sample_signal_later
              sample_account [] (recent_signals ?e1) trading_hours = Inr (True, None)"
    using sample_passes_first_three [of 1 sample_signal_later sample_formatter]
    by (simp add: default_rules)
  have p2: "validate (MinConfidenceRule sample_formatter (6 / 10)) sample_signal_later
              sample_account [] (recent_signals ?e1) trading_hours = Inr (True, None)"
    using sample_passes_first_three [of 2 sample_signal_later sample_formatter]
    by (simp only: default_rules nth_Cons_numeral nth_Cons_0) simp
  from duplicate_signal_rejected [OF refl cap ok refl sy si within p0 p1 p2, of 10000000]
    ok within
  show ?thesis by blast
qed

section \<open>The confidence of a crossover signal\<close>

lemma confidence_bullish:
  "long_ma \<noteq> 0 \<Longrightarrow>
   calculate_signal_confidence p short_ma long_ma ''bullish'' =
     Inr (spec_confidence True p short_ma long_ma)"
  by (simp add: calculate_signal_confidence_def float_div_def spec_confidence_def
      spec_price_factor_def Let_def)

lemma confidence_bearish:
  "long_ma \<noteq> 0 \<Longrightarrow>
   calculate_signal_confidence p short_ma long_ma ''bearish'' =
     Inr (spec_confidence False p short_ma long_ma)"
  by (simp add: calculate_signal_confidence_def float_div_def spec_confidence_def
      spec_price_factor_def Let_def)

lemma confidence_raises:
  "calculate_signal_confidence p short_ma 0 crossover_type =
     Inl (ZeroDivisionError ''float division by zero'')"
  by (simp add: calculate_signal_confidence_def float_div_def)

lemma confidence_capped:
  "5 / 100 \<le> \<bar>short_ma - long_ma\<bar> / long_ma \<Longrightarrow>
   spec_price_factor bullish p long_ma = 2 / 10 \<Longrightarrow>
   spec_confidence bullish p short_ma long_ma = 1"
  by (simp add: spec_confidence_def min_def)

lemma create_trade_signal_fields:
  "create_trade_signal uuid now symb sd q src conf strat ot md = Inr sg \<Longrightarrow>
   confidence sg = conf \<and> side sg = sd"
  by (auto simp: create_trade_signal_def TradeSignal_post_init_def split: if_splits)

lemma crossover_signal_confidence:
  assumes emitted:
      "crossover_signal st uuid now symb p short_ma long_ma ts sd crossover_type =
         (st', Inr (Some sg))"
    and kind: "crossover_type = ''bullish'' \<or> crossover_type = ''bearish''"
  shows "side sg = sd \<and>
         confidence sg = spec_confidence (crossover_type = ''bullish'') p short_ma long_ma"
proof -
  have nz: "long_ma \<noteq> 0"
    using emitted by (auto simp: crossover_signal_def confidence_raises)
  from kind have c: "calculate_signal_confidence p short_ma long_ma crossover_type =
      Inr (spec_confidence (crossover_type = ''bullish'') p short_ma long_ma)"
    using confidence_bullish [OF nz] confidence_bearish [OF nz] by auto
  show ?thesis using emitted c
    by (auto simp: crossover_signal_def split: if_splits sum.splits
        dest: create_trade_signal_fields)
qed

lemma detect_crossover_confidence:
  assumes "detect_crossover st uuid now symb p short_ma long_ma prev_short_ma prev_long_ma ts =
             (st', Inr (Some sg))"
  shows "confidence sg = spec_confidence (side sg = BUY) p short_ma long_ma"
  using assms
  by (auto simp: detect_crossover_def split: if_splits dest!: crossover_signal_confidence)

text \<open>
  Claim C7. For a non-zero long average, \<^verbatim>\<open>_calculate_signal_confidence\<close> returns the
  confidence of the specification, for a bullish and for a bearish crossover. Whenever
  \<^verbatim>\<open>_detect_crossover\<close> detects a crossover and emits a signal, BUY for a bullish and
  SELL for a bearish one, the confidence of the signal is that value. The value is
  exactly 1 when the gap between the averages is at least 0.05 of the long average and
  the price factor is at its cap 0.2.
\<close>

theorem signal_confidence_formula:
  "(long_ma \<noteq> 0 \<longrightarrow>
      calculate_signal_confidence p short_ma long_ma ''bullish'' =
        Inr (spec_confidence True p short_ma long_ma) \<and>
      calculate_signal_confidence p short_ma long_ma ''bearish'' =
        Inr (spec_confidence False p short_ma long_ma)) \<and>
   (detect_crossover st uuid now symb p short_ma long_ma prev_short_ma prev_long_ma ts =
      (st', Inr (Some sg)) \<longrightarrow>
      confidence sg = spec_confidence (side sg = BUY) p short_ma long_ma) \<and>
   (5 / 100 \<le> \<bar>short_ma - long_ma\<bar> / long_ma \<and>
    spec_price_factor bullish p long_ma = 2 / 10 \<longrightarrow>
      spec_confidence bullish p short_ma long_ma = 1)"
proof (intro conjI impI)
  assume "long_ma \<noteq> 0"
  then show "calculate_signal_confidence p short_ma long_ma ''bullish'' =
               Inr (spec_confidence True p short_ma long_ma)"
    by (rule confidence_bullish)
next
  assume "long_ma \<noteq> 0"
  then show "calculate_signal_confidence p short_ma long_ma ''bearish'' =
               Inr (spec_confidence False p short_ma long_ma)"
    by (rule confidence_bearish)
next
  assume "detect_crossover st uuid now symb p short_ma long_ma prev_short_ma prev_long_ma ts =
            (st', Inr (Some sg))"
  then show "confidence sg = spec_confidence (side sg = BUY) p short_ma long_ma"
    by (rule detect_crossover_confidence)
next
  assume "5 / 100 \<le> \<bar>short_ma - long_ma\<bar> / long_ma \<and>
          spec_price_factor bullish p long_ma = 2 / 10"
  then show "spec_confidence bullish p short_ma long_ma = 1"
    using confidence_capped by blast
qed

lemma sample_crossover:
  "detect_crossover sample_strategy ''uuid-1'' 0 ''SPY'' 112 110 100 99 100 0 =
     (sample_strategy\<lparr>last_signal_time := [''SPY'' \<mapsto> 0]\<rparr>,
      Inr (Some \<lparr> signal_id = ''uuid-1'', symbol = ''SPY'', side = BUY, qty = 100,
                  order_type = MARKET, confidence = 1, source = STRATEGY, created_at = 0,
                  strategy_name = Some ''MA_Crossover'', price = None, stop_price = None,
                  signal_metadata =
                    [(''short_ma'', MetaNum 110), (''long_ma'', MetaNum 100),
                     (''price'', MetaNum 112), (''crossover_type'', MetaStr ''bullish'')] \<rparr>))"
proof -
  have u: "upper ''SPY'' = ''SPY''" by code_simp
  have c: "calculate_signal_confidence 112 110 100 ''bullish'' = Inr 1"
    by (simp add: calculate_signal_confidence_def float_div_def Let_def)
  have q: "calculate_position_size 1 = 100"
    by (simp add: calculate_position_size_def py_int_def Let_def)
  show ?thesis
    by (simp add: detect_crossover_def crossover_signal_def c q u create_trade_signal_def
        TradeSignal_post_init_def sample_strategy_def MovingAverageCrossoverStrategy_init_def)
qed

text \<open>
  The theorem at the price 112 with the averages 110 and 100, after the averages 99
  and 100: a bullish crossover with the gap 0.1 and the price factor at its cap.
\<close>

theorem signal_confidence_formula_witness:
  "calculate_signal_confidence 112 110 100 ''bullish'' = Inr 1 \<and>
   calculate_signal_confidence 88 90 100 ''bearish'' = Inr 1 \<and>
   (\<exists>st' sg. detect_crossover sample_strategy ''uuid-1'' 0 ''SPY'' 112 110 100 99 100 0 =
               (st', Inr (Some sg)) \<and> side sg = BUY \<and> confidence sg = 1)"
proof -
  have gap: "(5 / 100 :: real) \<le> \<bar>110 - 100\<bar> / 100" by simp
  have bull: "spec_price_factor True 112 100 = 2 / 10"
    and bear: "spec_price_factor False 88 100 = 2 / 10"
    by (simp_all add: spec_price_factor_def)
  have gap': "(5 / 100 :: real) \<le> \<bar>90 - 100\<bar> / 100" by simp
  note up = signal_confidence_formula [of 100 112 110 sample_strategy "''uuid-1''" 0 "''SPY''"
      99 100 0 _ _ True]
  note down = signal_confidence_formula [of 100 88 90 sample_strategy "''uuid-1''" 0 "''SPY''"
      99 100 0 _ _ False]
  have one: "spec_confidence True 112 110 100 = 1" using up gap bull by blast
  have one': "spec_confidence False 88 90 100 = 1" using down gap' bear by blast
  have a: "calculate_signal_confidence 112 110 100 ''bullish'' = Inr 1"
    using up one by simp
  have b: "calculate_signal_confidence 88 90 100 ''bearish'' = Inr 1"
    using down one' by simp
  from sample_crossover a b show ?thesis by simp
qed

section \<open>The price history\<close>

lemma newest_all: "length xs \<le> n \<Longrightarrow> newest n xs = xs"
  by (simp add: newest_def)

lemma update_price_history_eq:
  assumes "- 10 < long_period st"
  shows "price_history (update_price_history st symb p ts) =
     (price_history st)(symb \<mapsto>
        newest (nat (long_period st + 10))
          ((case price_history st symb of None \<Rightarrow> [] | Some h \<Rightarrow> h) @
           [\<lparr> entry_price = p, entry_timestamp = ts \<rparr>]))"
proof -
  let ?h = "(case price_history st symb of None \<Rightarrow> [] | Some h \<Rightarrow> h) @
            [\<lparr> entry_price = p, entry_timestamp = ts \<rparr>]"
  have pos: "0 < nat (long_period st + 10)" using assms by simp
  have k: "int (nat (long_period st + 10)) = long_period st + 10" using assms by simp
  have slice: "py_slice_from ?h (- (long_period st + 10)) =
                 newest (nat (long_period st + 10)) ?h"
    using py_slice_from_neg [OF pos, of ?h] by (simp only: k)
  show ?thesis
  proof (cases "long_period st + 10 < int (length ?h)")
    case True
    then have "price_history (update_price_history st symb p ts) =
        (price_history st)(symb \<mapsto> py_slice_from ?h (- (long_period st + 10)))"
      unfolding update_price_history_def Let_def by simp
    then show ?thesis by (simp only: slice)
  next
    case False
    then have "price_history (update_price_history st symb p ts) =
        (price_history st)(symb \<mapsto> ?h)"
      unfolding update_price_history_def Let_def by simp
    moreover have "newest (nat (long_period st + 10)) ?h = ?h"
      using False by (intro newest_all) linarith
    ultimately show ?thesis by (simp only:)
  qed
qed

lemma update_price_history_long_period:
  "long_period (update_price_history st symb p ts) = long_period st"
  by (simp add: update_price_history_def Let_def)

lemma crossover_signal_frame:
  "price_history (fst (crossover_signal st uuid now symb p s l ts sd ct)) = price_history st"
  "long_period (fst (crossover_signal st uuid now symb p s l ts sd ct)) = long_period st"
  by (auto simp: crossover_signal_def split: sum.splits)

lemma detect_crossover_frame:
  "price_history (fst (detect_crossover st uuid now symb p s l ps pl ts)) = price_history st"
  "long_period (fst (detect_crossover st uuid now symb p s l ps pl ts)) = long_period st"
  by (auto simp: detect_crossover_def crossover_signal_frame)

lemma signals_of_frame:
  "fst (case x of (st2, Inl e) \<Rightarrow> (st2, Inl e)
               | (st2, Inr None) \<Rightarrow> (st2, Inr [])
               | (st2, Inr (Some signal)) \<Rightarrow> (st2, Inr [signal])) = fst x"
  by (auto split: prod.splits sum.splits option.splits)

lemma process_market_event_history:
  "price_history (fst (process_market_event st uuid now event)) =
     (if tick_processed st event
      then price_history (update_price_history st (market_symbol event)
             (the (extract_price (payload event))) (market_timestamp event))
      else price_history st)"
  by (auto simp: process_market_event_def Let_def is_symbol_relevant_def tick_processed_def
      signals_of_frame detect_crossover_frame split: option.splits sum.splits)

lemma process_market_event_long_period:
  "long_period (fst (process_market_event st uuid now event)) = long_period st"
  by (auto simp: process_market_event_def Let_def is_symbol_relevant_def
      signals_of_frame detect_crossover_frame update_price_history_long_period
      split: option.splits sum.splits)

lemma newest_length_int:
  assumes "- 10 < (n :: int)"
  shows "int (length (newest (nat (n + 10)) xs)) \<le> n + 10"
proof -
  have "length (newest (nat (n + 10)) xs) \<le> nat (n + 10)" by (rule newest_length)
  then show ?thesis using assms by linarith
qed

lemma process_market_event_bounded:
  assumes lp: "- 10 < long_period st" and inv: "history_bounded st"
  shows "history_bounded (fst (process_market_event st uuid now event))"
  unfolding history_bounded_def process_market_event_long_period
proof (intro allI impI)
  fix symb h
  assume h: "price_history (fst (process_market_event st uuid now event)) symb = Some h"
  show "int (length h) \<le> long_period st + 10"
  proof (cases "tick_processed st event \<and> symb = market_symbol event")
    case True
    then have "h = newest (nat (long_period st + 10))
          ((case price_history st symb of None \<Rightarrow> [] | Some h \<Rightarrow> h) @
           [\<lparr> entry_price = the (extract_price (payload event)),
               entry_timestamp = market_timestamp event \<rparr>])"
      using h by (simp add: process_market_event_history update_price_history_eq [OF lp])
    then show ?thesis using newest_length_int [OF lp] by simp
  next
    case False
    then have "price_history st symb = Some h"
      using h by (auto simp: process_market_event_history update_price_history_eq [OF lp]
          split: if_splits)
    then show ?thesis using inv by (simp add: history_bounded_def)
  qed
qed

lemma process_market_events_bounded:
  "- 10 < long_period st \<Longrightarrow> history_bounded st \<Longrightarrow>
   history_bounded (process_market_events st events)"
proof (induction events arbitrary: st)
  case Nil
  then show ?case by simp
next
  case (Cons ev events)
  obtain uuid now event where ev: "ev = (uuid, now, event)" by (cases ev) auto
  have "history_bounded (fst (process_market_event st uuid now event))"
    using Cons.prems by (rule process_market_event_bounded)
  moreover have "- 10 < long_period (fst (process_market_event st uuid now event))"
    using Cons.prems(1) by (simp add: process_market_event_long_period)
  ultimately show ?case using Cons.IH ev by simp
qed

text \<open>
  Claim C8. For a strategy whose bound \<open>long_period + 10\<close> is positive, as it is for
  every positive period, and whose histories are within the bound, as they are at
  construction: after every sequence of market events each symbol's history holds at
  most \<open>long_period + 10\<close> entries. A processed tick appends its price and timestamp to
  the history of its symbol and keeps the newest \<open>long_period + 10\<close> entries; an event
  that is not processed leaves the histories as they were.
\<close>

theorem price_history_bounded:
  assumes lp: "- 10 < long_period st" and inv: "history_bounded st"
  shows "history_bounded (process_market_events st events) \<and>
         (tick_processed st event \<longrightarrow>
            price_history (fst (process_market_event st uuid now event)) =
              (price_history st)(market_symbol event \<mapsto>
                 newest (nat (long_period st + 10))
                   ((case price_history st (market_symbol event) of
                       None \<Rightarrow> [] | Some h \<Rightarrow> h) @
                    [\<lparr> entry_price = the (extract_price (payload event)),
                        entry_timestamp = market_timestamp event \<rparr>]))) \<and>
         (\<not> tick_processed st event \<longrightarrow>
            price_history (fst (process_market_event st uuid now event)) = price_history st)"
proof (intro conjI impI)
  show "history_bounded (process_market_events st events)"
    using lp inv by (rule process_market_events_bounded)
next
  assume "tick_processed st event"
  then show "price_history (fst (process_market_event st uuid now event)) =
              (price_history st)(market_symbol event \<mapsto>
                 newest (nat (long_period st + 10))
                   ((case price_history st (market_symbol event) of
                       None \<Rightarrow> [] | Some h \<Rightarrow> h) @
                    [\<lparr> entry_price = the (extract_price (payload event)),
                        entry_timestamp = market_timestamp event \<rparr>]))"
    by (simp add: process_market_event_history update_price_history_eq [OF lp])
next
  assume "\<not> tick_processed st event"
  then show "price_history (fst (process_market_event st uuid now event)) = price_history st"
    by (simp add: process_market_event_history)
qed

text \<open>The theorem on the sample strategy, fresh from its constructor, and one tick.\<close>

theorem price_history_bounded_witness:
  "- 10 < long_period sample_strategy \<and>
   history_bounded sample_strategy \<and>
   tick_processed sample_strategy sample_tick \<and>
   history_bounded (process_market_events sample_strategy [(''uuid-1'', 0, sample_tick)]) \<and>
   price_history (fst (process_market_event sample_strategy ''uuid-1'' 0 sample_tick)) ''SPY'' =
     Some [\<lparr> entry_price = 100, entry_timestamp = 0 \<rparr>]"
proof -
  have lp: "- 10 < long_period sample_strategy"
    by (simp add: sample_strategy_def MovingAverageCrossoverStrategy_init_def)
  have inv: "history_bounded sample_strategy"
    by (simp add: history_bounded_def sample_strategy_def
        MovingAverageCrossoverStrategy_init_def)
  have px: "extract_price (payload sample_tick) = Some 100"
    by (simp add: extract_price_def sample_tick_def)
  have tick: "tick_processed sample_strategy sample_tick"
    by (simp add: tick_processed_def px)
       (simp add: sample_strategy_def sample_tick_def MovingAverageCrossoverStrategy_init_def)
  have empty: "price_history sample_strategy ''SPY'' = None"
    and sy: "market_symbol sample_tick = ''SPY''"
    and ts: "market_timestamp sample_tick = 0"
    and n: "long_period sample_strategy = 10"
    by (simp_all add: sample_strategy_def sample_tick_def
        MovingAverageCrossoverStrategy_init_def)
  from price_history_bounded [OF lp inv, of "[(''uuid-1'', 0, sample_tick)]" sample_tick
      "''uuid-1''" 0] lp inv tick
  show ?thesis by (simp add: px empty sy ts n newest_def)
qed

end
